theory Spec2Isabelle
  imports Complex_Main
begin

section \<open>JavaScript strings\<close>

text \<open>
  A JavaScript string is a sequence of UTF-16 code units. The hooks inspect code units
  beyond ASCII (the combining marks U+0300 to U+036F), so a string is a list of code
  units given as numbers; \<open>js\<close> turns an ASCII literal into such a list.
\<close>

type_synonym jsstring = "nat list"

definition js :: "string \<Rightarrow> jsstring" where
  "js s = map of_char s"

text \<open>The code units the hooks name: \<open>/\<close>, \<open>.\<close>, \<open>,\<close>, space and \<open>-\<close>.\<close>

definition slash :: nat where "slash = 47"
definition dot :: nat where "dot = 46"
definition comma :: nat where "comma = 44"
definition space :: nat where "space = 32"
definition dash :: nat where "dash = 45"

text \<open>Template literals print a non-negative integer in decimal.\<close>

fun string_of_nat :: "nat \<Rightarrow> jsstring" where
  "string_of_nat n = (if n < 10 then [48 + n] else string_of_nat (n div 10) @ [48 + n mod 10])"

declare string_of_nat.simps [simp del]

text \<open>
  \<open>String.prototype.split\<close> with a one-character separator: every occurrence of the
  separator ends a piece, so the result is never empty and \<open>''''.split(sep)\<close> is \<open>['''']\<close>.
\<close>

fun split_on :: "nat \<Rightarrow> jsstring \<Rightarrow> jsstring list" where
  "split_on sep [] = [[]]"
| "split_on sep (c # cs) =
     (if c = sep then [] # split_on sep cs
      else (case split_on sep cs of
              [] \<Rightarrow> [[c]]
            | p # ps \<Rightarrow> (c # p) # ps))"

text \<open>
  \<open>String.prototype.trim\<close> removes white space and line terminators from both ends:
  TAB, LF, VT, FF, CR, SP, NBSP, U+1680, U+2000 to U+200A, U+2028, U+2029, U+202F,
  U+205F, U+3000 and U+FEFF.
\<close>

definition is_white_space :: "nat \<Rightarrow> bool" where
  "is_white_space c \<longleftrightarrow>
     c \<in> set [0x9, 0xA, 0xB, 0xC, 0xD, 0x20, 0xA0, 0x1680, 0x2028, 0x2029, 0x202F, 0x205F,
              0x3000, 0xFEFF]
     \<or> (0x2000 \<le> c \<and> c \<le> 0x200A)"

definition trim :: "jsstring \<Rightarrow> jsstring" where
  "trim s = rev (dropWhile is_white_space (rev (dropWhile is_white_space s)))"

text \<open>\<open>String.prototype.includes\<close>: the pattern occurs somewhere as a contiguous run.\<close>

fun starts_with :: "jsstring \<Rightarrow> jsstring \<Rightarrow> bool" where
  "starts_with s [] = True"
| "starts_with [] (p # ps) = False"
| "starts_with (c # cs) (p # ps) = (c = p \<and> starts_with cs ps)"

fun js_includes :: "jsstring \<Rightarrow> jsstring \<Rightarrow> bool" where
  "js_includes [] p = starts_with [] p"
| "js_includes (c # cs) p = (starts_with (c # cs) p \<or> js_includes cs p)"

section \<open>Path clean-up\<close>

text \<open>
  \<^verbatim>\<open>const replacePath = _path => (_path === `/` ? _path : _path.replace(/\/$/, ``))\<close>

  The pattern is anchored at the end of the string and has no global flag: at most one
  slash, the last code unit, is removed.
\<close>

definition replacePath :: "jsstring \<Rightarrow> jsstring" where
  "replacePath p =
     (if p = [slash] then p
      else if p \<noteq> [] \<and> last p = slash then butlast p
      else p)"

definition ends_with_slash :: "jsstring \<Rightarrow> bool" where
  "ends_with_slash p \<longleftrightarrow> p \<noteq> [] \<and> last p = slash"

section \<open>Nodes, options and the host\<close>

text \<open>
  The front-matter of an Mdx node. Every key is optional: \<open>None\<close> is a key that is
  absent (or null). \<open>tags\<close> is one comma-separated string, \<open>keywords\<close> a list.
\<close>

record frontmatter =
  fm_title :: "jsstring option"
  fm_slug :: "jsstring option"
  fm_tags :: "jsstring option"
  fm_date :: "jsstring option"
  fm_keywords :: "jsstring list option"
  fm_type :: "jsstring option"
  fm_snippet :: "jsstring option"
  fm_abstract :: "jsstring option"

record mdx_node =
  node_id :: jsstring
  node_parent :: jsstring
  internal_type :: jsstring
  node_frontmatter :: frontmatter

text \<open>The File node an Mdx node hangs from, as gatsby-source-filesystem creates it.\<close>

record file_node =
  sourceInstanceName :: jsstring
  file_name :: jsstring
  relativePath :: jsstring

text \<open>\<open>fieldData\<close>, and the MdxBlogPost node built around it.\<close>

record field_data =
  fd_title :: "jsstring option"
  fd_tags :: "jsstring list"
  fd_slug :: jsstring
  fd_date :: "jsstring option"
  fd_keywords :: "jsstring list"
  fd_type :: jsstring
  fd_snippet :: jsstring
  fd_abstract :: jsstring

record blog_post_node = field_data +
  bp_id :: jsstring
  bp_parent :: jsstring
  bp_children :: "jsstring list"
  bp_internal_type :: jsstring
  bp_contentDigest :: jsstring
  bp_content :: jsstring
  bp_description :: jsstring

text \<open>
  The theme options as \<open>withDefaults(themeOptions)\<close> returns them (the defaults table
  \<open>./utils/default-options\<close> is not part of the sources at hand, so the hooks are
  modelled from the point where the defaults have been filled in). The three
  \<open>do_not_...\<close> options may be unset.
\<close>

record options =
  basePath :: jsstring
  postsPath :: jsstring
  recipesPath :: jsstring
  tagsPath :: jsstring
  postsPerPage :: nat
  do_not_count_type_for_pagination :: "jsstring list option"
  do_not_include_type_in_lists :: "jsstring list option"
  do_not_create_tag_page_for :: "jsstring option"

text \<open>
  What the hooks call but do not define: \<open>urlResolve\<close> of gatsby-core-utils,
  \<open>path.isAbsolute\<close> of Node, \<open>createFilePath\<close> of gatsby-source-filesystem (applied
  to the File node, to \<open>getNode\<close> and to the source name as its base path),
  \<open>String.prototype.normalize('NFD')\<close>, Gatsby's \<open>createNodeId\<close>,
  \<open>JSON.stringify\<close> on \<open>fieldData\<close> and the hexadecimal MD5 digest. They are
  parameters of the model: every theorem holds whatever these functions compute.
\<close>

record host =
  urlResolve :: "jsstring \<Rightarrow> jsstring \<Rightarrow> jsstring"
  isAbsolute :: "jsstring \<Rightarrow> bool"
  createFilePath :: "file_node \<Rightarrow> (jsstring \<Rightarrow> file_node option) \<Rightarrow> jsstring \<Rightarrow> jsstring"
  normalize_NFD :: "jsstring \<Rightarrow> jsstring"
  createNodeId :: "jsstring \<Rightarrow> jsstring"
  stringify :: "field_data \<Rightarrow> jsstring"
  md5_hex :: "jsstring \<Rightarrow> jsstring"

datatype error = TypeError | RangeError | Panic "jsstring list"

section \<open>onCreateNode\<close>

text \<open>A string is truthy when it is present and not empty; an array whenever it is present.\<close>

definition truthy_string :: "jsstring option \<Rightarrow> bool" where
  "truthy_string v = (case v of None \<Rightarrow> False | Some s \<Rightarrow> s \<noteq> [])"

definition or_empty_string :: "jsstring option \<Rightarrow> jsstring" where
  "or_empty_string v = (if truthy_string v then the v else [])"

definition or_empty_list :: "jsstring list option \<Rightarrow> jsstring list" where
  "or_empty_list v = (case v of None \<Rightarrow> [] | Some ks \<Rightarrow> ks)"

text \<open>
  \<^verbatim>\<open>/^.\d{4}\.\d{2}\.\d{2}\./.test(filePath)\<close>: one code unit that is no line
  terminator, then \<open>dddd.dd.dd.\<close> with decimal digits.
\<close>

definition is_digit :: "nat \<Rightarrow> bool" where
  "is_digit c \<longleftrightarrow> 48 \<le> c \<and> c \<le> 57"

definition is_line_terminator :: "nat \<Rightarrow> bool" where
  "is_line_terminator c \<longleftrightarrow> c \<in> set [0xA, 0xD, 0x2028, 0x2029]"

fun date_prefixed :: "jsstring \<Rightarrow> bool" where
  "date_prefixed (c # y1 # y2 # y3 # y4 # p1 # m1 # m2 # p2 # d1 # d2 # p3 # rest) =
     (\<not> is_line_terminator c
      \<and> is_digit y1 \<and> is_digit y2 \<and> is_digit y3 \<and> is_digit y4 \<and> p1 = dot
      \<and> is_digit m1 \<and> is_digit m2 \<and> p2 = dot
      \<and> is_digit d1 \<and> is_digit d2 \<and> p3 = dot)"
| "date_prefixed s = False"

text \<open>
  The slug before \<open>replacePath\<close>: the three branches of the \<open>if\<close> on the
  front-matter slug. Like the code between the braces of the hook, this and the next
  two functions have the whole node and \<open>getNode\<close> in scope.
\<close>

definition derive_slug ::
  "host \<Rightarrow> (jsstring \<Rightarrow> file_node option) \<Rightarrow> options \<Rightarrow> mdx_node \<Rightarrow> file_node \<Rightarrow> jsstring" where
  "derive_slug h getNode opts node fileNode =
     (if truthy_string (fm_slug (node_frontmatter node)) then
        (if isAbsolute h (the (fm_slug (node_frontmatter node)))
         then the (fm_slug (node_frontmatter node))
         else urlResolve h (basePath opts) (the (fm_slug (node_frontmatter node))))
      else
        (let filePath = createFilePath h fileNode getNode (sourceInstanceName fileNode);
             changedPath = (if date_prefixed filePath
                            then slash # last (split_on dot filePath)
                            else filePath)
         in urlResolve h (basePath opts) changedPath))"

text \<open>
  The tags: every piece of the split is trimmed, normalized to NFD, stripped of the code
  units U+0300 to U+036F (a global replace by the empty string) and has each space
  replaced by a dash (a global replace again); a falsy tags string gives the empty list.
\<close>

definition is_combining_mark :: "nat \<Rightarrow> bool" where
  "is_combining_mark c \<longleftrightarrow> 0x300 \<le> c \<and> c \<le> 0x36F"

definition normalize_tag :: "host \<Rightarrow> jsstring \<Rightarrow> jsstring" where
  "normalize_tag h el =
     map (\<lambda>c. if c = space then dash else c)
       (filter (\<lambda>c. \<not> is_combining_mark c) (normalize_NFD h (trim el)))"

definition derive_tags :: "host \<Rightarrow> mdx_node \<Rightarrow> jsstring list" where
  "derive_tags h node =
     (if truthy_string (fm_tags (node_frontmatter node))
      then map (normalize_tag h) (split_on comma (the (fm_tags (node_frontmatter node))))
      else [])"

definition make_fieldData ::
  "host \<Rightarrow> (jsstring \<Rightarrow> file_node option) \<Rightarrow> options \<Rightarrow> mdx_node \<Rightarrow> file_node \<Rightarrow> field_data" where
  "make_fieldData h getNode opts node fileNode =
     (let slug = derive_slug h getNode opts node fileNode;
          tags = derive_tags h node;
          slug = replacePath slug
      in \<lparr> fd_title = fm_title (node_frontmatter node),
           fd_tags = tags,
           fd_slug = slug,
           fd_date = fm_date (node_frontmatter node),
           fd_keywords = or_empty_list (fm_keywords (node_frontmatter node)),
           fd_type = or_empty_string (fm_type (node_frontmatter node)),
           fd_snippet = or_empty_string (fm_snippet (node_frontmatter node)),
           fd_abstract = or_empty_string (fm_abstract (node_frontmatter node)) \<rparr>)"

text \<open>What the hook asks of Gatsby, in the order of the calls.\<close>

datatype node_action =
    CreateNode blog_post_node
  | CreateParentChildLink mdx_node blog_post_node

text \<open>
  The hook returns at once for a node that is not an Mdx node. Otherwise it reads
  \<open>sourceInstanceName\<close> off the parent: a parent that \<open>getNode\<close> does not find is
  \<open>undefined\<close> and the read throws. The child of the link is what \<open>getNode\<close> returns
  for the new id once the node has been created, the new node itself.
\<close>

definition onCreateNode ::
  "host \<Rightarrow> (jsstring \<Rightarrow> file_node option) \<Rightarrow> options \<Rightarrow> mdx_node \<Rightarrow> error + node_action list" where
  "onCreateNode h getNode opts node =
     (if internal_type node \<noteq> js ''Mdx'' then Inr []
      else
        (case getNode (node_parent node) of
           None \<Rightarrow> Inl TypeError
         | Some fileNode \<Rightarrow>
             (let source = sourceInstanceName fileNode in
              if internal_type node = js ''Mdx''
                 \<and> (source = postsPath opts \<or> source = recipesPath opts)
              then
                (let fieldData = make_fieldData h getNode opts node fileNode;
                     mdxBlogPostId = createNodeId h (node_id node @ js '' >>> MdxBlogPost'');
                     new = field_data.extend fieldData
                             (blog_post_node.fields mdxBlogPostId (node_id node) []
                                (js ''MdxBlogPost'')
                                (md5_hex h (stringify h fieldData))
                                (stringify h fieldData)
                                (js ''Mdx implementation of the BlogPost interface''))
                 in Inr [CreateNode new, CreateParentChildLink node new])
              else Inr [])))"

text \<open>The MdxBlogPost nodes a run of the hook has created (none when it threw).\<close>

fun created :: "node_action \<Rightarrow> blog_post_node list" where
  "created (CreateNode new) = [new]"
| "created (CreateParentChildLink parent child) = []"

definition created_nodes :: "error + node_action list \<Rightarrow> blog_post_node list" where
  "created_nodes r = (case r of Inl e \<Rightarrow> [] | Inr acts \<Rightarrow> concat (map created acts))"

section \<open>onCreatePage\<close>

text \<open>
  A page as Gatsby hands it to the hook: its path, its context (an object with any keys,
  read here as a map from key to value) and whatever other fields it has, which are the
  extension part of the record. The object spread \<open>{...page, path: p, context: c}\<close>
  is the record update of these two fields.
\<close>

datatype json = JStr jsstring | JNum int | JBool bool | JNull | JArr "json list"

record site_page =
  page_path :: jsstring
  page_context :: "jsstring \<rightharpoonup> json"

datatype 'a page_action =
    DeletePage "'a site_page_scheme"
  | CreatePage "'a site_page_scheme"

text \<open>
  \<open>{ basePath: basePath, ...page.context }\<close>: the keys of the page's own context are
  copied over the object that holds \<open>basePath\<close>, so a \<open>basePath\<close> key of the page wins.
\<close>

definition onCreatePage :: "host \<Rightarrow> options \<Rightarrow> 'a site_page_scheme \<Rightarrow> 'a page_action list" where
  "onCreatePage h opts page =
     (if js_includes (page_path page) (js ''404'') then []
      else
        [DeletePage page,
         CreatePage
           (page\<lparr> page_path := urlResolve h (replacePath (basePath opts))
                                  (replacePath (page_path page)),
                  page_context := [js ''basePath'' \<mapsto> JStr (basePath opts)]
                                  ++ page_context page \<rparr>)])"

section \<open>createPages\<close>

text \<open>
  The answer of the query: \<open>errors\<close> (an array, truthy whenever it is there) and
  \<open>data.allMdxBlogPost.edges\<close>, the posts in the order the data layer sorted them.
  Lists stand for JavaScript arrays, which are shorter than \<open>2 ^ 32\<close>.
\<close>

record post =
  post_id :: jsstring
  post_slug :: jsstring
  post_tags :: "jsstring list"
  post_type :: jsstring

record query_result =
  qr_errors :: "jsstring list option"
  qr_data :: "post list option"

datatype template = PostTemplate | PostsTemplate

text \<open>
  The context objects of the three kinds of pages, as one record: a key that a kind of
  page does not have, or has as \<open>undefined\<close>, is \<open>None\<close>.
\<close>

record page_context =
  ctx_basePath :: jsstring
  ctx_pre_path :: jsstring
  ctx_id :: "jsstring option"
  ctx_previousId :: "jsstring option"
  ctx_nextId :: "jsstring option"
  ctx_limit :: "nat option"
  ctx_skip :: "nat option"
  ctx_num_of_pages :: "nat option"
  ctx_current_page :: "nat option"
  ctx_this_is_a_tag_search :: "bool option"
  ctx_excluded_type :: "jsstring list option"
  ctx_all_posts :: "post list option"
  ctx_tag :: "jsstring option"
  ctx_global_tags :: "jsstring list option"

record page =
  pg_path :: jsstring
  pg_component :: template
  pg_context :: page_context

text \<open>\<open>xs[i]\<close> is \<open>undefined\<close> out of range.\<close>

definition nth_opt :: "'a list \<Rightarrow> nat \<Rightarrow> 'a option" where
  "nth_opt xs i = (if i < length xs then Some (xs ! i) else None)"

text \<open>The callback of \<open>posts.forEach(({ node: post }, index) => ...)\<close>.\<close>

definition post_page :: "options \<Rightarrow> post list \<Rightarrow> nat \<Rightarrow> post \<Rightarrow> page" where
  "post_page opts posts index post =
     (let previous = (if int index = int (length posts) - 1 then None
                      else nth_opt posts (index + 1));
          next = (if index = 0 then None else nth_opt posts (index - 1))
      in \<lparr> pg_path = post_slug post,
           pg_component = PostTemplate,
           pg_context =
             \<lparr> ctx_basePath = basePath opts,
               ctx_pre_path = basePath opts,
               ctx_id = Some (post_id post),
               ctx_previousId = map_option post_id previous,
               ctx_nextId = map_option post_id next,
               ctx_limit = None, ctx_skip = None, ctx_num_of_pages = None,
               ctx_current_page = None, ctx_this_is_a_tag_search = None,
               ctx_excluded_type = None, ctx_all_posts = None, ctx_tag = None,
               ctx_global_tags = None \<rparr> \<rparr>)"

text \<open>
  \<open>option ? posts.filter(({ node: { type } }) => !option.includes(type)) : posts\<close>,
  for both options that name types.
\<close>

definition exclude_types :: "jsstring list option \<Rightarrow> post list \<Rightarrow> post list" where
  "exclude_types excluded posts =
     (case excluded of
        None \<Rightarrow> posts
      | Some ts \<Rightarrow> filter (\<lambda>p. post_type p \<notin> set ts) posts)"

text \<open>
  Numbers. A counter holds a count or NaN. \<open>Math.ceil(a / b)\<close> of a counter and a page
  size is a count, NaN (\<open>0 / 0\<close>, or NaN divided) or \<open>Infinity\<close> (a positive count
  divided by \<open>0\<close>); counts stay far below \<open>2 ^ 53\<close>, where the floating-point quotient
  has the ceiling of the exact one. \<open>Array.from({ length: x })\<close> has no element for
  NaN and throws a RangeError for \<open>Infinity\<close>.
\<close>

datatype jsnum = Num nat | NaN

datatype quotient = Finite nat | Indeterminate | Infinite

definition math_ceil_div :: "jsnum \<Rightarrow> nat \<Rightarrow> quotient" where
  "math_ceil_div a b =
     (case a of
        NaN \<Rightarrow> Indeterminate
      | Num n \<Rightarrow>
          if b = 0 then (if n = 0 then Indeterminate else Infinite)
          else Finite (nat \<lceil>real n / real b\<rceil>))"

definition array_from_length :: "quotient \<Rightarrow> error + nat" where
  "array_from_length x =
     (case x of Finite n \<Rightarrow> Inr n | Indeterminate \<Rightarrow> Inr 0 | Infinite \<Rightarrow> Inl RangeError)"

text \<open>The callback of the loop over the pages of the main listing.\<close>

definition listing_page :: "options \<Rightarrow> post list \<Rightarrow> nat \<Rightarrow> nat \<Rightarrow> page" where
  "listing_page opts posts numPages index =
     \<lparr> pg_path = (if index = 0 then basePath opts
                  else basePath opts @ string_of_nat (index + 1)),
       pg_component = PostsTemplate,
       pg_context =
         \<lparr> ctx_basePath = basePath opts,
           ctx_pre_path = basePath opts,
           ctx_id = None, ctx_previousId = None, ctx_nextId = None,
           ctx_limit = Some (postsPerPage opts),
           ctx_skip = Some (index * postsPerPage opts),
           ctx_num_of_pages = Some numPages,
           ctx_current_page = Some (index + 1),
           ctx_this_is_a_tag_search = Some False,
           ctx_excluded_type = Some (or_empty_list (do_not_count_type_for_pagination opts)),
           ctx_all_posts = Some posts,
           ctx_tag = None, ctx_global_tags = None \<rparr> \<rparr>"

text \<open>
  \<open>counting_by_tags\<close> is a plain object: \<open>counting_by_tags[tag]\<close> finds an own
  property, or else a member that every object inherits from \<open>Object.prototype\<close>
  (a function, or the prototype itself under \<open>__proto__\<close>), or else \<open>undefined\<close>.
  An inherited member is truthy and NaN as a number. Assignment creates an own property,
  except under \<open>__proto__\<close>, whose setter ignores a number.
\<close>

definition inherited_names :: "jsstring list" where
  "inherited_names =
     map js [''constructor'', ''hasOwnProperty'', ''isPrototypeOf'', ''propertyIsEnumerable'',
             ''toLocaleString'', ''toString'', ''valueOf'', ''__defineGetter__'',
             ''__defineSetter__'', ''__lookupGetter__'', ''__lookupSetter__'', ''__proto__'']"

datatype lookup = Own jsnum | Inherited | Undefined

definition get_count :: "(jsstring \<rightharpoonup> jsnum) \<Rightarrow> jsstring \<Rightarrow> lookup" where
  "get_count obj tag =
     (case obj tag of
        Some v \<Rightarrow> Own v
      | None \<Rightarrow> if tag \<in> set inherited_names then Inherited else Undefined)"

definition put_count :: "(jsstring \<rightharpoonup> jsnum) \<Rightarrow> jsstring \<Rightarrow> jsnum \<Rightarrow> (jsstring \<rightharpoonup> jsnum)" where
  "put_count obj tag v = (if tag = js ''__proto__'' then obj else obj(tag \<mapsto> v))"

definition falsy :: "lookup \<Rightarrow> bool" where
  "falsy v =
     (case v of
        Own (Num n) \<Rightarrow> n = 0
      | Own NaN \<Rightarrow> True
      | Inherited \<Rightarrow> False
      | Undefined \<Rightarrow> True)"

definition to_number :: "lookup \<Rightarrow> jsnum" where
  "to_number v = (case v of Own x \<Rightarrow> x | Inherited \<Rightarrow> NaN | Undefined \<Rightarrow> NaN)"

definition increment :: "jsnum \<Rightarrow> jsnum" where
  "increment x = (case x of Num n \<Rightarrow> Num (n + 1) | NaN \<Rightarrow> NaN)"

text \<open>
  \<open>if (!counting_by_tags[tag]) counting_by_tags[tag] = 0\<close> and then
  \<open>counting_by_tags[tag]++\<close>.
\<close>

definition count_tag :: "(jsstring \<rightharpoonup> jsnum) \<Rightarrow> jsstring \<Rightarrow> (jsstring \<rightharpoonup> jsnum)" where
  "count_tag obj tag =
     (let obj = (if falsy (get_count obj tag) then put_count obj tag (Num 0) else obj)
      in put_count obj tag (increment (to_number (get_count obj tag))))"

text \<open>The loop over the posts kept for the tag pages, with its two accumulators.\<close>

definition collect_tags :: "post list \<Rightarrow> jsstring list \<times> (jsstring \<rightharpoonup> jsnum)" where
  "collect_tags posts =
     foldl (\<lambda>(global_tags, counting_by_tags) p.
              (global_tags @ post_tags p, foldl count_tag counting_by_tags (post_tags p)))
       ([], Map.empty) posts"

text \<open>\<open>[...new Set(xs)]\<close>: each value once, in the order of first occurrence.\<close>

definition set_add :: "'a list \<Rightarrow> 'a \<Rightarrow> 'a list" where
  "set_add seen x = (if x \<in> set seen then seen else seen @ [x])"

definition uniq :: "'a list \<Rightarrow> 'a list" where
  "uniq xs = foldl set_add [] xs"

text \<open>The callback of the loop over the pages of one tag, and the loop over the tags.\<close>

definition tag_page :: "options \<Rightarrow> jsstring list \<Rightarrow> jsstring \<Rightarrow> nat \<Rightarrow> nat \<Rightarrow> page" where
  "tag_page opts global_tags tag numPages_perTag index =
     \<lparr> pg_path = (if index = 0
                  then basePath opts @ tagsPath opts @ [slash] @ tag @ [slash]
                  else basePath opts @ tagsPath opts @ [slash] @ tag @ [slash]
                       @ string_of_nat (index + 1)),
       pg_component = PostsTemplate,
       pg_context =
         \<lparr> ctx_basePath = basePath opts,
           ctx_pre_path = basePath opts @ tagsPath opts @ [slash] @ tag,
           ctx_id = None, ctx_previousId = None, ctx_nextId = None,
           ctx_limit = Some (postsPerPage opts),
           ctx_skip = Some (index * postsPerPage opts),
           ctx_num_of_pages = Some numPages_perTag,
           ctx_current_page = Some (index + 1),
           ctx_this_is_a_tag_search = Some True,
           ctx_excluded_type = None, ctx_all_posts = None,
           ctx_tag = Some tag,
           ctx_global_tags = Some global_tags \<rparr> \<rparr>"

fun tag_pages ::
  "options \<Rightarrow> jsstring list \<Rightarrow> (jsstring \<rightharpoonup> jsnum) \<Rightarrow> jsstring list \<Rightarrow> page list \<times> error option" where
  "tag_pages opts global_tags counting_by_tags [] = ([], None)"
| "tag_pages opts global_tags counting_by_tags (tag # rest) =
     (case array_from_length
             (math_ceil_div (to_number (get_count counting_by_tags tag)) (postsPerPage opts)) of
        Inl e \<Rightarrow> ([], Some e)
      | Inr n \<Rightarrow>
          (let (pages, e) = tag_pages opts global_tags counting_by_tags rest
           in (map (tag_page opts global_tags tag n) [0..<n] @ pages, e)))"

text \<open>
  The hook returns the pages it has asked Gatsby to create, in the order of the calls,
  and the error that ended it, if any. \<open>reporter.panic\<close> reports the errors of the
  query and ends the build, so nothing after it runs. Reading \<open>data\<close> off an answer
  that has none throws. A RangeError leaves the pages created before it in place.
\<close>

definition createPages :: "options \<Rightarrow> query_result \<Rightarrow> page list \<times> error option" where
  "createPages opts result =
     (case qr_errors result of
        Some es \<Rightarrow> ([], Some (Panic es))
      | None \<Rightarrow>
          (case qr_data result of
             None \<Rightarrow> ([], Some TypeError)
           | Some posts \<Rightarrow>
               (let post_pages = map (\<lambda>(index, p). post_page opts posts index p)
                                   (enumerate 0 posts);
                    filtered_posts_by_type =
                      exclude_types (do_not_count_type_for_pagination opts) posts;
                    numPages = math_ceil_div (Num (length filtered_posts_by_type))
                                 (postsPerPage opts)
                in case array_from_length numPages of
                     Inl e \<Rightarrow> (post_pages, Some e)
                   | Inr n \<Rightarrow>
                       (let listing_pages = map (listing_page opts posts n) [0..<n];
                            filtered_posts_by_tag =
                              exclude_types (do_not_include_type_in_lists opts) posts;
                            (global_tags, counting_by_tags) = collect_tags filtered_posts_by_tag;
                            discarded = filter (\<lambda>tag. Some tag \<noteq> do_not_create_tag_page_for opts)
                                          global_tags;
                            global_tags = uniq global_tags;
                            (pages, e) = tag_pages opts global_tags counting_by_tags global_tags
                        in (post_pages @ listing_pages @ pages, e)))))"

text \<open>The pages of the main listing and of one tag among the pages created.\<close>

definition main_listing_pages :: "page list \<Rightarrow> page list" where
  "main_listing_pages pages =
     filter (\<lambda>pg. ctx_this_is_a_tag_search (pg_context pg) = Some False) pages"

definition tag_listing_pages :: "jsstring \<Rightarrow> page list \<Rightarrow> page list" where
  "tag_listing_pages tag pages = filter (\<lambda>pg. ctx_tag (pg_context pg) = Some tag) pages"

definition posts_carrying :: "jsstring \<Rightarrow> post list \<Rightarrow> post list" where
  "posts_carrying tag posts = filter (\<lambda>p. tag \<in> set (post_tags p)) posts"

text \<open>The per-post pages among the pages created.\<close>

definition post_pages :: "page list \<Rightarrow> page list" where
  "post_pages pages = filter (\<lambda>pg. pg_component pg = PostTemplate) pages"

text \<open>The number of pages the loop over the tags makes for one tag.\<close>

definition tag_page_count :: "options \<Rightarrow> (jsstring \<rightharpoonup> jsnum) \<Rightarrow> jsstring \<Rightarrow> nat" where
  "tag_page_count opts counting_by_tags tag =
     (case array_from_length
             (math_ceil_div (to_number (get_count counting_by_tags tag)) (postsPerPage opts)) of
        Inl e \<Rightarrow> 0
      | Inr n \<Rightarrow> n)"

section \<open>Concrete inputs\<close>

text \<open>
  A host to run the hooks on concrete inputs: \<open>urlResolve\<close> joins its two segments with a
  slash and collapses runs of slashes (what \<open>path.join\<close> does on segments free of
  \<open>.\<close> and \<open>..\<close>), \<open>isAbsolute\<close> is the POSIX test for a leading slash,
  \<open>createFilePath\<close> answers for a file at the top of its source directory, and
  normalization, ids, serialization and digest are simple stand-ins.
\<close>

fun collapse_slashes :: "jsstring \<Rightarrow> jsstring" where
  "collapse_slashes (a # b # cs) =
     (if a = slash \<and> b = slash then collapse_slashes (b # cs) else a # collapse_slashes (b # cs))"
| "collapse_slashes cs = cs"

definition posix_isAbsolute :: "jsstring \<Rightarrow> bool" where
  "posix_isAbsolute p = (case p of [] \<Rightarrow> False | c # cs \<Rightarrow> c = slash)"

definition example_host :: host where
  "example_host =
     \<lparr> urlResolve = (\<lambda>a b. collapse_slashes (a @ [slash] @ b)),
       isAbsolute = posix_isAbsolute,
       createFilePath = (\<lambda>f getNode src. [slash] @ file_name f @ [slash]),
       normalize_NFD = (\<lambda>s. s),
       createNodeId = (\<lambda>s. s),
       stringify = (\<lambda>fd. fd_slug fd @ concat (fd_tags fd)),
       md5_hex = (\<lambda>s. string_of_nat (length s)) \<rparr>"

definition example_options :: options where
  "example_options =
     \<lparr> basePath = js ''/blog'',
       postsPath = js ''content/posts'',
       recipesPath = js ''content/recipes'',
       tagsPath = js ''/tags'',
       postsPerPage = 2,
       do_not_count_type_for_pagination = None,
       do_not_include_type_in_lists = None,
       do_not_create_tag_page_for = None \<rparr>"

definition bare_frontmatter :: frontmatter where
  "bare_frontmatter =
     \<lparr> fm_title = Some (js ''Hello''), fm_slug = None, fm_tags = None, fm_date = None,
       fm_keywords = None, fm_type = None, fm_snippet = None, fm_abstract = None \<rparr>"

definition example_file :: file_node where
  "example_file =
     \<lparr> sourceInstanceName = js ''content/posts'',
       file_name = js ''2019.01.31.hello'',
       relativePath = js ''2019.01.31.hello.mdx'' \<rparr>"

definition second_file :: file_node where
  "second_file =
     \<lparr> sourceInstanceName = js ''content/posts'',
       file_name = js ''2020.02.02.hello'',
       relativePath = js ''2020.02.02.hello.mdx'' \<rparr>"

definition example_getNode :: "jsstring \<Rightarrow> file_node option" where
  "example_getNode i =
     (if i = js ''file-1'' then Some example_file
      else if i = js ''file-2'' then Some second_file
      else None)"

definition other_getNode :: "jsstring \<Rightarrow> file_node option" where
  "other_getNode i = (if i = js ''file-7'' then Some example_file else None)"

definition mdx_with :: "jsstring \<Rightarrow> jsstring \<Rightarrow> frontmatter \<Rightarrow> mdx_node" where
  "mdx_with i parent fm =
     \<lparr> node_id = i, node_parent = parent, internal_type = js ''Mdx'',
       node_frontmatter = fm \<rparr>"

definition tagging_id :: "jsstring \<Rightarrow> jsstring" where
  "tagging_id s = js ''id:'' @ s"

definition tagged_frontmatter :: frontmatter where
  "tagged_frontmatter =
     bare_frontmatter\<lparr> fm_tags := Some (js ''web dev, e'' @ [0x301] @ js '' , css'') \<rparr>"

definition empty_tags_frontmatter :: frontmatter where
  "empty_tags_frontmatter = bare_frontmatter\<lparr> fm_tags := Some [] \<rparr>"

definition double_slash_frontmatter :: frontmatter where
  "double_slash_frontmatter = bare_frontmatter\<lparr> fm_slug := Some (js ''/foo//'') \<rparr>"

text \<open>Pages for \<open>onCreatePage\<close>, and answers of the query for \<open>createPages\<close>.\<close>

definition about_page :: site_page where
  "about_page = \<lparr> page_path = js ''/about'', page_context = [js ''lang'' \<mapsto> JStr (js ''en'')] \<rparr>"

definition not_found_page :: site_page where
  "not_found_page = \<lparr> page_path = js ''/dev-404-page/'', page_context = Map.empty \<rparr>"

definition other_base_page :: site_page where
  "other_base_page =
     \<lparr> page_path = js ''/about'', page_context = [js ''basePath'' \<mapsto> JStr (js ''/other'')] \<rparr>"

definition post_a :: post where
  "post_a = \<lparr> post_id = js ''a'', post_slug = js ''/blog/a'', post_tags = [js ''x'', js ''y''],
              post_type = js ''post'' \<rparr>"

definition post_b :: post where
  "post_b = \<lparr> post_id = js ''b'', post_slug = js ''/blog/b'', post_tags = [js ''x''],
              post_type = js ''recipe'' \<rparr>"

definition post_c :: post where
  "post_c = \<lparr> post_id = js ''c'', post_slug = js ''/blog/c'', post_tags = [js ''x''],
              post_type = js ''post'' \<rparr>"

definition three_posts :: query_result where
  "three_posts = \<lparr> qr_errors = None, qr_data = Some [post_a, post_b, post_c] \<rparr>"

definition failed_query :: query_result where
  "failed_query = \<lparr> qr_errors = Some [js ''Cannot query field''], qr_data = None \<rparr>"

definition one_per_page :: options where
  "one_per_page = example_options\<lparr> postsPerPage := 1 \<rparr>"

definition repeated_tag_post :: post where
  "repeated_tag_post =
     \<lparr> post_id = js ''a'', post_slug = js ''/blog/a'', post_tags = [js ''x'', js ''x''],
       post_type = js ''post'' \<rparr>"

definition constructor_post :: post where
  "constructor_post =
     \<lparr> post_id = js ''a'', post_slug = js ''/blog/a'', post_tags = [js ''constructor''],
       post_type = js ''post'' \<rparr>"

definition plain_post :: post where
  "plain_post =
     \<lparr> post_id = js ''a'', post_slug = js ''/blog/a'', post_tags = [js ''x''],
       post_type = js ''post'' \<rparr>"

definition one_plain :: query_result where
  "one_plain = \<lparr> qr_errors = None, qr_data = Some [plain_post] \<rparr>"

definition one_repeated :: query_result where
  "one_repeated = \<lparr> qr_errors = None, qr_data = Some [repeated_tag_post] \<rparr>"

definition one_constructor :: query_result where
  "one_constructor = \<lparr> qr_errors = None, qr_data = Some [constructor_post] \<rparr>"

section \<open>Properties of the string helpers\<close>

lemma split_on_not_Nil: "split_on sep s \<noteq> []"
  by (induction s) (auto split: list.splits)

lemma split_on_pieces: "p \<in> set (split_on sep s) \<Longrightarrow> sep \<notin> set p"
  by (induction s arbitrary: p) (auto split: list.splits if_splits)

lemma normalize_tag_clean:
  "space \<notin> set (normalize_tag h el) \<and> (\<forall>c\<in>set (normalize_tag h el). \<not> is_combining_mark c)"
  by (auto simp: normalize_tag_def space_def dash_def is_combining_mark_def)

lemma replacePath_slash:
  "ends_with_slash (replacePath p) \<Longrightarrow> replacePath p = [slash] \<or> (\<exists>q. p = q @ [slash, slash])"
proof -
  assume e: "ends_with_slash (replacePath p)"
  show ?thesis
  proof (cases "p = [slash]")
    case True
    then show ?thesis by (simp add: replacePath_def)
  next
    case False
    with e have l: "p \<noteq> []" "last p = slash"
      by (auto simp: replacePath_def ends_with_slash_def split: if_splits)
    with False have r: "replacePath p = butlast p"
      by (simp add: replacePath_def)
    with e have "butlast p \<noteq> []" "last (butlast p) = slash"
      by (simp_all add: ends_with_slash_def)
    then have "butlast p = butlast (butlast p) @ [slash]"
      by (metis append_butlast_last_id)
    moreover from l have "p = butlast p @ [slash]"
      by (metis append_butlast_last_id)
    ultimately have "p = butlast (butlast p) @ [slash, slash]"
      by (metis append.assoc append_Cons append_Nil)
    then show ?thesis by blast
  qed
qed

section \<open>Properties of onCreateNode\<close>

lemma or_empty_string_None: "or_empty_string None = []"
  by (simp add: or_empty_string_def truthy_string_def)

lemma derive_tags_None: "fm_tags (node_frontmatter node) = None \<Longrightarrow> derive_tags h node = []"
  by (simp add: derive_tags_def truthy_string_def)

lemma onCreateNode_creates:
  assumes "internal_type node = js ''Mdx''"
    and "getNode (node_parent node) = Some fileNode"
    and "sourceInstanceName fileNode = postsPath opts
         \<or> sourceInstanceName fileNode = recipesPath opts"
  shows "\<exists>new. created_nodes (onCreateNode h getNode opts node) = [new]
           \<and> field_data.truncate new = make_fieldData h getNode opts node fileNode
           \<and> bp_contentDigest new
               = md5_hex h (stringify h (make_fieldData h getNode opts node fileNode))"
  using assms
  by (auto simp: onCreateNode_def created_nodes_def Let_def field_data.defs blog_post_node.defs)

text \<open>
  C1. An Mdx node whose parent file comes from the posts or the recipes source gets one
  MdxBlogPost node, and in it every optional front-matter field that is missing has its
  empty default: \<open>tags\<close> and \<open>keywords\<close> the empty list, \<open>type\<close>, \<open>snippet\<close> and
  \<open>abstract\<close> the empty string.
\<close>

theorem onCreateNode_missing_fields_default:
  assumes "internal_type node = js ''Mdx''"
    and "getNode (node_parent node) = Some fileNode"
    and "sourceInstanceName fileNode = postsPath opts
         \<or> sourceInstanceName fileNode = recipesPath opts"
  shows "\<exists>new. onCreateNode h getNode opts node
                 = Inr [CreateNode new, CreateParentChildLink node new]
           \<and> bp_internal_type new = js ''MdxBlogPost''
           \<and> (fm_tags (node_frontmatter node) = None \<longrightarrow> fd_tags new = [])
           \<and> (fm_keywords (node_frontmatter node) = None \<longrightarrow> fd_keywords new = [])
           \<and> (fm_type (node_frontmatter node) = None \<longrightarrow> fd_type new = [])
           \<and> (fm_snippet (node_frontmatter node) = None \<longrightarrow> fd_snippet new = [])
           \<and> (fm_abstract (node_frontmatter node) = None \<longrightarrow> fd_abstract new = [])"
  using assms
  by (auto simp: onCreateNode_def Let_def make_fieldData_def or_empty_string_None
      derive_tags_None or_empty_list_def field_data.defs blog_post_node.defs)

text \<open>The post \<open>2019.01.31.hello\<close> of the posts source, with a title and nothing else.\<close>

theorem onCreateNode_missing_fields_default_witness:
  "internal_type (mdx_with (js ''mdx-1'') (js ''file-1'') bare_frontmatter) = js ''Mdx''
   \<and> example_getNode (node_parent (mdx_with (js ''mdx-1'') (js ''file-1'') bare_frontmatter)) = Some example_file
   \<and> sourceInstanceName example_file = postsPath example_options
   \<and> (\<exists>new. onCreateNode example_host example_getNode example_options
                 (mdx_with (js ''mdx-1'') (js ''file-1'') bare_frontmatter)
               = Inr [CreateNode new,
                      CreateParentChildLink (mdx_with (js ''mdx-1'') (js ''file-1'') bare_frontmatter) new]
           \<and> bp_internal_type new = js ''MdxBlogPost''
           \<and> fd_tags new = [] \<and> fd_keywords new = [] \<and> fd_type new = []
           \<and> fd_snippet new = [] \<and> fd_abstract new = [])"
proof -
  have t: "internal_type (mdx_with (js ''mdx-1'') (js ''file-1'') bare_frontmatter) = js ''Mdx''"
    by (simp add: mdx_with_def)
  have p: "example_getNode (node_parent (mdx_with (js ''mdx-1'') (js ''file-1'') bare_frontmatter))
           = Some example_file"
    by (simp add: mdx_with_def example_getNode_def)
  have s: "sourceInstanceName example_file = postsPath example_options
           \<or> sourceInstanceName example_file = recipesPath example_options"
    by (simp add: example_file_def example_options_def)
  have s': "sourceInstanceName example_file = postsPath example_options"
    by (simp add: example_file_def example_options_def)
  have f: "node_frontmatter (mdx_with (js ''mdx-1'') (js ''file-1'') bare_frontmatter) = bare_frontmatter"
    by (simp add: mdx_with_def)
  from onCreateNode_missing_fields_default
    [of "mdx_with (js ''mdx-1'') (js ''file-1'') bare_frontmatter" example_getNode example_file example_options
      example_host, OF t p s]
  show ?thesis using t p s' unfolding f
    by (simp add: bare_frontmatter_def)
qed

text \<open>
  C5 (as amended). For an Mdx post node whose front-matter has a non-empty tags string,
  the derived tags are the pieces of that string between commas, each trimmed, normalized
  to NFD, stripped of the combining marks U+0300 to U+036F and with every space replaced
  by a dash; an empty or missing tags string gives no tag at all. In every case no derived
  tag contains a space or a combining mark.
\<close>

theorem onCreateNode_tags:
  assumes "internal_type node = js ''Mdx''"
    and "getNode (node_parent node) = Some fileNode"
    and "sourceInstanceName fileNode = postsPath opts
         \<or> sourceInstanceName fileNode = recipesPath opts"
  shows "\<exists>new. created_nodes (onCreateNode h getNode opts node) = [new]
           \<and> fd_tags new =
               (case fm_tags (node_frontmatter node) of
                  None \<Rightarrow> []
                | Some s \<Rightarrow>
                    if s = [] then []
                    else map (\<lambda>el. map (\<lambda>c. if c = space then dash else c)
                                     (filter (\<lambda>c. \<not> (0x300 \<le> c \<and> c \<le> 0x36F))
                                        (normalize_NFD h (trim el))))
                           (split_on comma s))
           \<and> (\<forall>t\<in>set (fd_tags new).
                  space \<notin> set t \<and> (\<forall>c\<in>set t. \<not> (0x300 \<le> c \<and> c \<le> 0x36F)))"
proof -
  from onCreateNode_creates [of node getNode fileNode opts h] assms obtain new where
    n: "created_nodes (onCreateNode h getNode opts node) = [new]"
    and f: "field_data.truncate new = make_fieldData h getNode opts node fileNode"
    by auto
  have "fd_tags new = fd_tags (field_data.truncate new)"
    by (simp add: field_data.defs)
  then have t: "fd_tags new = derive_tags h node"
    by (simp add: f make_fieldData_def Let_def)
  have shape: "derive_tags h node =
               (case fm_tags (node_frontmatter node) of
                  None \<Rightarrow> []
                | Some s \<Rightarrow>
                    if s = [] then []
                    else map (\<lambda>el. map (\<lambda>c. if c = space then dash else c)
                                     (filter (\<lambda>c. \<not> (0x300 \<le> c \<and> c \<le> 0x36F))
                                        (normalize_NFD h (trim el))))
                           (split_on comma s))"
    by (simp add: derive_tags_def truthy_string_def normalize_tag_def is_combining_mark_def
        split: option.splits)
  have clean: "space \<notin> set t \<and> (\<forall>c\<in>set t. \<not> (0x300 \<le> c \<and> c \<le> 0x36F))"
    if "t \<in> set (derive_tags h node)" for t
  proof -
    from that obtain el where "t = normalize_tag h el"
      by (auto simp: derive_tags_def split: if_splits)
    then show ?thesis
      using normalize_tag_clean [of h el] by (simp add: is_combining_mark_def)
  qed
  have "fd_tags new =
               (case fm_tags (node_frontmatter node) of
                  None \<Rightarrow> []
                | Some s \<Rightarrow>
                    if s = [] then []
                    else map (\<lambda>el. map (\<lambda>c. if c = space then dash else c)
                                     (filter (\<lambda>c. \<not> (0x300 \<le> c \<and> c \<le> 0x36F))
                                        (normalize_NFD h (trim el))))
                           (split_on comma s))"
    using t shape by (rule trans)
  moreover have "\<forall>t\<in>set (fd_tags new).
                  space \<notin> set t \<and> (\<forall>c\<in>set t. \<not> (0x300 \<le> c \<and> c \<le> 0x36F))"
    unfolding t using clean by blast
  ultimately show ?thesis using n by blast
qed

text \<open>
  A post tagged \<open>web dev, e\<close> followed by U+0301 \<open>, css\<close>: the tags are \<open>web-dev\<close>,
  \<open>e\<close> and \<open>css\<close>.
\<close>

theorem onCreateNode_tags_witness:
  "internal_type (mdx_with (js ''mdx-1'') (js ''file-1'') tagged_frontmatter) = js ''Mdx''
   \<and> example_getNode (node_parent (mdx_with (js ''mdx-1'') (js ''file-1'') tagged_frontmatter)) = Some example_file
   \<and> sourceInstanceName example_file = postsPath example_options
   \<and> (\<exists>new. created_nodes (onCreateNode example_host example_getNode example_options
                              (mdx_with (js ''mdx-1'') (js ''file-1'') tagged_frontmatter)) = [new]
           \<and> fd_tags new = [js ''web-dev'', js ''e'', js ''css''])"
proof -
  have t: "internal_type (mdx_with (js ''mdx-1'') (js ''file-1'') tagged_frontmatter) = js ''Mdx''"
    by (simp add: mdx_with_def)
  have p: "example_getNode (node_parent (mdx_with (js ''mdx-1'') (js ''file-1'') tagged_frontmatter))
           = Some example_file"
    by (simp add: mdx_with_def example_getNode_def)
  have s: "sourceInstanceName example_file = postsPath example_options
           \<or> sourceInstanceName example_file = recipesPath example_options"
    by (simp add: example_file_def example_options_def)
  have s': "sourceInstanceName example_file = postsPath example_options"
    by (simp add: example_file_def example_options_def)
  have f: "fm_tags (node_frontmatter (mdx_with (js ''mdx-1'') (js ''file-1'') tagged_frontmatter))
           = Some (js ''web dev, e'' @ [0x301] @ js '' , css'')"
    by (simp add: mdx_with_def tagged_frontmatter_def bare_frontmatter_def)
  have ws: "is_white_space 32" "\<not> is_white_space 119" "\<not> is_white_space 118"
    "\<not> is_white_space 101" "\<not> is_white_space 769" "\<not> is_white_space 99"
    "\<not> is_white_space 115"
    by (simp_all add: is_white_space_def)
  from onCreateNode_tags
    [of "mdx_with (js ''mdx-1'') (js ''file-1'') tagged_frontmatter" example_getNode example_file example_options
      example_host, OF t p s]
  have "\<exists>new. created_nodes (onCreateNode example_host example_getNode example_options
                              (mdx_with (js ''mdx-1'') (js ''file-1'') tagged_frontmatter)) = [new]
           \<and> fd_tags new = [js ''web-dev'', js ''e'', js ''css'']"
    unfolding f
    by (auto simp: js_def comma_def space_def dash_def trim_def ws example_host_def)
  with t p s' show ?thesis by blast
qed

text \<open>
  The claim as first stated fails on a tags string that is empty (\<open>tags: ""\<close>): the
  split of the empty string has one piece, the empty tag, but the node has no tag.
\<close>

theorem onCreateNode_tags_counterexample:
  "map fd_tags (created_nodes (onCreateNode example_host example_getNode example_options
                                 (mdx_with (js ''mdx-1'') (js ''file-1'') empty_tags_frontmatter))) = [[]]
   \<and> fm_tags empty_tags_frontmatter = Some []
   \<and> map (normalize_tag example_host) (split_on comma []) = [[]]"
  by (simp add: onCreateNode_def created_nodes_def Let_def make_fieldData_def derive_tags_def
      truthy_string_def mdx_with_def example_getNode_def example_file_def example_options_def
      empty_tags_frontmatter_def bare_frontmatter_def field_data.defs blog_post_node.defs
      normalize_tag_def trim_def example_host_def)

text \<open>
  C4 (as amended). The slug stored on an MdxBlogPost node is \<open>replacePath\<close> of the path
  derived for the post: one trailing slash is dropped unless the path is exactly \<open>/\<close>.
  So the slug ends in a slash only if it is exactly \<open>/\<close> or the derived path ended in
  two slashes. Slugs are not made unique: the slug is determined by the front-matter
  slug, the file path and the options alone.
\<close>

theorem onCreateNode_slug_normalized:
  assumes "internal_type node = js ''Mdx''"
    and "getNode (node_parent node) = Some fileNode"
    and "sourceInstanceName fileNode = postsPath opts
         \<or> sourceInstanceName fileNode = recipesPath opts"
  shows "\<exists>new. created_nodes (onCreateNode h getNode opts node) = [new]
           \<and> fd_slug new = replacePath (derive_slug h getNode opts node fileNode)
           \<and> (ends_with_slash (fd_slug new) \<longrightarrow>
                 fd_slug new = js ''/''
                 \<or> (\<exists>q. derive_slug h getNode opts node fileNode = q @ js ''//''))"
proof -
  from onCreateNode_creates [of node getNode fileNode opts h] assms obtain new where
    n: "created_nodes (onCreateNode h getNode opts node) = [new]"
    and f: "field_data.truncate new = make_fieldData h getNode opts node fileNode"
    by auto
  have "fd_slug new = fd_slug (field_data.truncate new)"
    by (simp add: field_data.defs)
  then have s: "fd_slug new = replacePath (derive_slug h getNode opts node fileNode)"
    by (simp add: f make_fieldData_def Let_def)
  have "fd_slug new = js ''/''
        \<or> (\<exists>q. derive_slug h getNode opts node fileNode = q @ js ''//'')"
    if "ends_with_slash (fd_slug new)"
    using replacePath_slash [of "derive_slug h getNode opts node fileNode"] that
    unfolding s by (simp add: js_def slash_def)
  with n s show ?thesis by blast
qed

text \<open>
  The post \<open>2019.01.31.hello\<close> again: the file path \<open>/2019.01.31.hello/\<close> loses its
  date, is resolved against \<open>/blog\<close> and loses its trailing slash.
\<close>

theorem onCreateNode_slug_normalized_witness:
  "internal_type (mdx_with (js ''mdx-1'') (js ''file-1'') bare_frontmatter) = js ''Mdx''
   \<and> example_getNode (node_parent (mdx_with (js ''mdx-1'') (js ''file-1'') bare_frontmatter))
       = Some example_file
   \<and> sourceInstanceName example_file = postsPath example_options
   \<and> derive_slug example_host example_getNode example_options
       (mdx_with (js ''mdx-1'') (js ''file-1'') bare_frontmatter) example_file = js ''/blog/hello/''
   \<and> (\<exists>new. created_nodes (onCreateNode example_host example_getNode example_options
                              (mdx_with (js ''mdx-1'') (js ''file-1'') bare_frontmatter)) = [new]
           \<and> fd_slug new = js ''/blog/hello''
           \<and> \<not> ends_with_slash (fd_slug new))"
proof -
  have t: "internal_type (mdx_with (js ''mdx-1'') (js ''file-1'') bare_frontmatter) = js ''Mdx''"
    by (simp add: mdx_with_def)
  have p: "example_getNode (node_parent (mdx_with (js ''mdx-1'') (js ''file-1'') bare_frontmatter))
           = Some example_file"
    by (simp add: mdx_with_def example_getNode_def)
  have s: "sourceInstanceName example_file = postsPath example_options
           \<or> sourceInstanceName example_file = recipesPath example_options"
    by (simp add: example_file_def example_options_def)
  have s': "sourceInstanceName example_file = postsPath example_options"
    by (simp add: example_file_def example_options_def)
  have f: "node_frontmatter (mdx_with (js ''mdx-1'') (js ''file-1'') bare_frontmatter)
           = bare_frontmatter"
    by (simp add: mdx_with_def)
  have d: "derive_slug example_host example_getNode example_options
       (mdx_with (js ''mdx-1'') (js ''file-1'') bare_frontmatter) example_file
           = js ''/blog/hello/''"
    by (simp add: derive_slug_def mdx_with_def example_host_def example_options_def
        bare_frontmatter_def example_file_def truthy_string_def js_def Let_def slash_def
        dot_def is_digit_def is_line_terminator_def)
  have r: "replacePath (js ''/blog/hello/'') = js ''/blog/hello''"
    by (simp add: replacePath_def js_def slash_def)
  have e: "\<not> ends_with_slash (js ''/blog/hello'')"
    by (simp add: ends_with_slash_def js_def slash_def)
  from onCreateNode_slug_normalized
    [of "mdx_with (js ''mdx-1'') (js ''file-1'') bare_frontmatter" example_getNode example_file
      example_options example_host, OF t p s]
  have "\<exists>new. created_nodes (onCreateNode example_host example_getNode example_options
                              (mdx_with (js ''mdx-1'') (js ''file-1'') bare_frontmatter)) = [new]
           \<and> fd_slug new = js ''/blog/hello''
           \<and> \<not> ends_with_slash (fd_slug new)"
    unfolding f d r using e by auto
  with t p s' d show ?thesis by blast
qed

text \<open>
  The claim as first stated fails twice. An absolute front-matter slug is taken as it
  is, and of \<open>/foo//\<close> one slash remains at the end. And the posts
  \<open>2019.01.31.hello\<close> and \<open>2020.02.02.hello\<close>, two nodes with two ids, get the same
  slug \<open>/blog/hello\<close>.
\<close>

theorem onCreateNode_slug_counterexample:
  "map fd_slug (created_nodes (onCreateNode example_host example_getNode example_options
                  (mdx_with (js ''mdx-1'') (js ''file-1'') double_slash_frontmatter)))
     = [js ''/foo/'']
   \<and> ends_with_slash (js ''/foo/'') \<and> js ''/foo/'' \<noteq> js ''/''
   \<and> map fd_slug (created_nodes (onCreateNode example_host example_getNode example_options
                      (mdx_with (js ''mdx-1'') (js ''file-1'') bare_frontmatter)))
       = [js ''/blog/hello'']
   \<and> map fd_slug (created_nodes (onCreateNode example_host example_getNode example_options
                      (mdx_with (js ''mdx-2'') (js ''file-2'') bare_frontmatter)))
       = [js ''/blog/hello'']
   \<and> map bp_id (created_nodes (onCreateNode example_host example_getNode example_options
                    (mdx_with (js ''mdx-1'') (js ''file-1'') bare_frontmatter)))
       \<noteq> map bp_id (created_nodes (onCreateNode example_host example_getNode example_options
                       (mdx_with (js ''mdx-2'') (js ''file-2'') bare_frontmatter)))"
  by (simp add: onCreateNode_def created_nodes_def Let_def make_fieldData_def derive_slug_def
      derive_tags_def truthy_string_def mdx_with_def example_getNode_def example_file_def
      second_file_def example_options_def double_slash_frontmatter_def bare_frontmatter_def
      field_data.defs blog_post_node.defs example_host_def posix_isAbsolute_def
      replacePath_def ends_with_slash_def js_def slash_def dot_def is_digit_def
      is_line_terminator_def or_empty_string_def or_empty_list_def)

lemma make_fieldData_same:
  assumes "node_frontmatter n1 = node_frontmatter n2"
    and "truthy_string (fm_slug (node_frontmatter n1))
         \<or> createFilePath h fileNode getNode1 (sourceInstanceName fileNode)
             = createFilePath h fileNode getNode2 (sourceInstanceName fileNode)"
  shows "make_fieldData (h\<lparr> createNodeId := id1 \<rparr>) getNode1 opts n1 fileNode
         = make_fieldData (h\<lparr> createNodeId := id2 \<rparr>) getNode2 opts n2 fileNode"
proof -
  have t: "derive_tags (h\<lparr> createNodeId := id1 \<rparr>) n1 = derive_tags (h\<lparr> createNodeId := id2 \<rparr>) n2"
    using assms(1) by (simp add: derive_tags_def normalize_tag_def)
  have s: "derive_slug (h\<lparr> createNodeId := id1 \<rparr>) getNode1 opts n1 fileNode
           = derive_slug (h\<lparr> createNodeId := id2 \<rparr>) getNode2 opts n2 fileNode"
    using assms by (auto simp: derive_slug_def Let_def)
  show ?thesis
    using assms(1) by (simp add: make_fieldData_def Let_def t s)
qed

text \<open>
  C7. What the hook derives depends on the front-matter, the parent file node and the
  options only. Take two runs on Mdx nodes with the same front-matter, under the same
  options, whose parents are the same file node; the nodes may differ in their ids and
  in the ids of their parents, the two runs may see different stores through
  \<open>getNode\<close> and may be given different \<open>createNodeId\<close> functions. Then both runs
  compute the same slug, tags, \<open>fieldData\<close> and content digest. The library
  functions are the same functions in both runs. The store reaches the derivation in one
  place only, as an argument of \<open>createFilePath\<close> when the front-matter has no slug;
  there the library has to give the same path for the file node under both stores (it
  reads a File node's own path), which is the hypothesis on it.
\<close>

theorem onCreateNode_deterministic:
  assumes "internal_type n1 = js ''Mdx''" and "internal_type n2 = js ''Mdx''"
    and "node_frontmatter n1 = node_frontmatter n2"
    and "getNode1 (node_parent n1) = Some fileNode"
    and "getNode2 (node_parent n2) = Some fileNode"
    and "truthy_string (fm_slug (node_frontmatter n1))
         \<or> createFilePath h fileNode getNode1 (sourceInstanceName fileNode)
             = createFilePath h fileNode getNode2 (sourceInstanceName fileNode)"
  shows "map (\<lambda>new. (fd_slug new, fd_tags new, field_data.truncate new, bp_contentDigest new))
           (created_nodes (onCreateNode (h\<lparr> createNodeId := id1 \<rparr>) getNode1 opts n1))
         = map (\<lambda>new. (fd_slug new, fd_tags new, field_data.truncate new, bp_contentDigest new))
             (created_nodes (onCreateNode (h\<lparr> createNodeId := id2 \<rparr>) getNode2 opts n2))"
proof -
  note f = make_fieldData_same [OF assms(3) assms(6), of id1 opts id2]
  show ?thesis
    using assms(1,2,4,5)
    by (simp add: onCreateNode_def created_nodes_def Let_def f field_data.defs
        blog_post_node.defs)
qed

text \<open>
  Two Mdx nodes with different ids, looked up in two different stores that hold the same
  file node under different ids, with two different id functions: the same slug, tags,
  \<open>fieldData\<close> and digest, on nodes with different ids.
\<close>

theorem onCreateNode_deterministic_witness:
  "internal_type (mdx_with (js ''mdx-1'') (js ''file-1'') tagged_frontmatter) = js ''Mdx''
   \<and> internal_type (mdx_with (js ''mdx-2'') (js ''file-7'') tagged_frontmatter) = js ''Mdx''
   \<and> example_getNode (node_parent (mdx_with (js ''mdx-1'') (js ''file-1'') tagged_frontmatter))
       = Some example_file
   \<and> other_getNode (node_parent (mdx_with (js ''mdx-2'') (js ''file-7'') tagged_frontmatter))
       = Some example_file
   \<and> example_getNode \<noteq> other_getNode
   \<and> createFilePath example_host example_file example_getNode (sourceInstanceName example_file)
       = createFilePath example_host example_file other_getNode (sourceInstanceName example_file)
   \<and> map (\<lambda>new. (fd_slug new, fd_tags new, field_data.truncate new, bp_contentDigest new))
        (created_nodes (onCreateNode (example_host\<lparr> createNodeId := tagging_id \<rparr>)
                          example_getNode example_options
                          (mdx_with (js ''mdx-1'') (js ''file-1'') tagged_frontmatter)))
      = map (\<lambda>new. (fd_slug new, fd_tags new, field_data.truncate new, bp_contentDigest new))
          (created_nodes (onCreateNode (example_host\<lparr> createNodeId := rev \<rparr>)
                            other_getNode example_options
                            (mdx_with (js ''mdx-2'') (js ''file-7'') tagged_frontmatter)))
   \<and> map bp_id (created_nodes (onCreateNode (example_host\<lparr> createNodeId := tagging_id \<rparr>)
                                 example_getNode example_options
                                 (mdx_with (js ''mdx-1'') (js ''file-1'') tagged_frontmatter)))
      \<noteq> map bp_id (created_nodes (onCreateNode (example_host\<lparr> createNodeId := rev \<rparr>)
                                    other_getNode example_options
                                    (mdx_with (js ''mdx-2'') (js ''file-7'') tagged_frontmatter)))"
proof -
  have t1: "internal_type (mdx_with (js ''mdx-1'') (js ''file-1'') tagged_frontmatter) = js ''Mdx''"
    and t2: "internal_type (mdx_with (js ''mdx-2'') (js ''file-7'') tagged_frontmatter) = js ''Mdx''"
    by (simp_all add: mdx_with_def)
  have fm: "node_frontmatter (mdx_with (js ''mdx-1'') (js ''file-1'') tagged_frontmatter)
            = node_frontmatter (mdx_with (js ''mdx-2'') (js ''file-7'') tagged_frontmatter)"
    by (simp add: mdx_with_def)
  have g1: "example_getNode (node_parent (mdx_with (js ''mdx-1'') (js ''file-1'') tagged_frontmatter))
            = Some example_file"
    by (simp add: mdx_with_def example_getNode_def)
  have g2: "other_getNode (node_parent (mdx_with (js ''mdx-2'') (js ''file-7'') tagged_frontmatter))
            = Some example_file"
    by (simp add: mdx_with_def other_getNode_def)
  have "example_getNode (js ''file-1'') \<noteq> other_getNode (js ''file-1'')"
    by (simp add: example_getNode_def other_getNode_def js_def)
  then have ne: "example_getNode \<noteq> other_getNode" by auto
  have c: "createFilePath example_host example_file example_getNode
             (sourceInstanceName example_file)
           = createFilePath example_host example_file other_getNode
               (sourceInstanceName example_file)"
    by (simp add: example_host_def)
  then have c': "truthy_string
                   (fm_slug (node_frontmatter
                      (mdx_with (js ''mdx-1'') (js ''file-1'') tagged_frontmatter)))
                 \<or> createFilePath example_host example_file example_getNode
                      (sourceInstanceName example_file)
                    = createFilePath example_host example_file other_getNode
                        (sourceInstanceName example_file)"
    by simp
  have i: "map bp_id (created_nodes (onCreateNode (example_host\<lparr> createNodeId := tagging_id \<rparr>)
                                 example_getNode example_options
                                 (mdx_with (js ''mdx-1'') (js ''file-1'') tagged_frontmatter)))
      \<noteq> map bp_id (created_nodes (onCreateNode (example_host\<lparr> createNodeId := rev \<rparr>)
                                    other_getNode example_options
                                    (mdx_with (js ''mdx-2'') (js ''file-7'') tagged_frontmatter)))"
    by (simp add: onCreateNode_def created_nodes_def Let_def mdx_with_def example_getNode_def
        other_getNode_def example_file_def example_options_def field_data.defs
        blog_post_node.defs tagging_id_def js_def)
  from onCreateNode_deterministic
    [of "mdx_with (js ''mdx-1'') (js ''file-1'') tagged_frontmatter"
      "mdx_with (js ''mdx-2'') (js ''file-7'') tagged_frontmatter"
      example_getNode example_file other_getNode example_host tagging_id example_options rev,
      OF t1 t2 fm g1 g2 c']
  show ?thesis using t1 t2 g1 g2 ne c i by blast
qed

section \<open>Properties of onCreatePage\<close>

lemma starts_with_iff: "starts_with s p \<longleftrightarrow> (\<exists>b. s = p @ b)"
  by (induction s p rule: starts_with.induct) auto

lemma js_includes_iff: "js_includes s p \<longleftrightarrow> (\<exists>a b. s = a @ p @ b)"
proof (induction s)
  case Nil
  then show ?case by (simp add: starts_with_iff)
next
  case (Cons c cs)
  show ?case
  proof
    assume "js_includes (c # cs) p"
    then consider "starts_with (c # cs) p" | "js_includes cs p" by auto
    then show "\<exists>a b. c # cs = a @ p @ b"
    proof cases
      case 1
      then obtain b where "c # cs = p @ b" by (auto simp: starts_with_iff)
      then have "c # cs = [] @ p @ b" by simp
      then show ?thesis by blast
    next
      case 2
      with Cons.IH obtain a b where "cs = a @ p @ b" by blast
      then have "c # cs = (c # a) @ p @ b" by simp
      then show ?thesis by blast
    qed
  next
    assume "\<exists>a b. c # cs = a @ p @ b"
    then obtain a b where ab: "c # cs = a @ p @ b" by blast
    show "js_includes (c # cs) p"
    proof (cases a)
      case Nil
      with ab have "starts_with (c # cs) p" by (auto simp: starts_with_iff)
      then show ?thesis by simp
    next
      case (Cons x a')
      with ab have "cs = a' @ p @ b" by simp
      with Cons.IH have "js_includes cs p" by blast
      then show ?thesis by simp
    qed
  qed
qed

text \<open>
  C10 (as amended). The hook leaves a page whose path contains \<open>404\<close> alone: it neither
  deletes nor recreates it. Every other page it deletes and recreates with the path
  \<open>urlResolve\<close> gives for the normalized base path and the normalized page path, and with
  \<open>basePath\<close> added to its context unless that context has a \<open>basePath\<close> of its own,
  which is kept; all other entries of the context and all other fields of the page are
  as they were.
\<close>

theorem onCreatePage_effect:
  "onCreatePage h opts page =
     (if \<exists>a b. page_path page = a @ js ''404'' @ b then []
      else [DeletePage page,
            CreatePage
              (page\<lparr> page_path := urlResolve h (replacePath (basePath opts))
                                     (replacePath (page_path page)),
                     page_context :=
                       (\<lambda>k. if k = js ''basePath'' \<and> page_context page k = None
                            then Some (JStr (basePath opts))
                            else page_context page k) \<rparr>)])"
proof -
  have "[js ''basePath'' \<mapsto> JStr (basePath opts)] ++ page_context page
        = (\<lambda>k. if k = js ''basePath'' \<and> page_context page k = None
               then Some (JStr (basePath opts))
               else page_context page k)"
    by (rule ext) (simp add: map_add_def split: option.splits)
  then show ?thesis
    by (simp add: onCreatePage_def js_includes_iff)
qed

text \<open>
  The page \<open>/about\<close> with the context \<open>{ lang: 'en' }\<close> moves to \<open>/blog/about\<close> and
  gains the base path; the page \<open>/dev-404-page/\<close> is not touched.
\<close>

theorem onCreatePage_effect_witness:
  "onCreatePage example_host example_options about_page
     = [DeletePage about_page,
        CreatePage \<lparr> page_path = js ''/blog/about'',
                     page_context = [js ''lang'' \<mapsto> JStr (js ''en''),
                                     js ''basePath'' \<mapsto> JStr (js ''/blog'')] \<rparr>]
   \<and> onCreatePage example_host example_options not_found_page = []"
proof -
  have a: "\<not> (\<exists>a b. page_path about_page = a @ js ''404'' @ b)"
    unfolding js_includes_iff [symmetric] by (simp add: about_page_def js_def)
  have n: "\<exists>a b. page_path not_found_page = a @ js ''404'' @ b"
    unfolding js_includes_iff [symmetric] by (simp add: not_found_page_def js_def)
  have c: "(\<lambda>k. if k = js ''basePath'' \<and> page_context about_page k = None
                then Some (JStr (basePath example_options))
                else page_context about_page k)
           = [js ''lang'' \<mapsto> JStr (js ''en''), js ''basePath'' \<mapsto> JStr (js ''/blog'')]"
    by (rule ext) (simp add: about_page_def example_options_def js_def)
  have u: "urlResolve example_host (replacePath (basePath example_options))
             (replacePath (page_path about_page)) = js ''/blog/about''"
    by (simp add: example_host_def example_options_def about_page_def replacePath_def js_def
        slash_def)
  show ?thesis
    using onCreatePage_effect [of example_host example_options about_page]
      onCreatePage_effect [of example_host example_options not_found_page] a n
    unfolding c u by (simp add: about_page_def)
qed

text \<open>
  The claim as first stated fails on a page that comes with a \<open>basePath\<close> in its
  context: the page's own value stays, and the base path of the theme is not added. The
  recreated page differs from the original in its path only.
\<close>

theorem onCreatePage_counterexample:
  "onCreatePage example_host example_options other_base_page
     = [DeletePage other_base_page,
        CreatePage (other_base_page\<lparr> page_path := js ''/blog/about'' \<rparr>)]
   \<and> page_context other_base_page (js ''basePath'') = Some (JStr (js ''/other''))
   \<and> basePath example_options = js ''/blog''"
  by (simp add: onCreatePage_def other_base_page_def example_options_def example_host_def
      replacePath_def js_def slash_def)

section \<open>Properties of createPages\<close>

text \<open>
  C2. When the answer of the query has errors, the hook hands them to
  \<open>reporter.panic\<close>, which ends the build, and no page is created in that run.
\<close>

theorem createPages_query_errors:
  "qr_errors result = Some es \<Longrightarrow> createPages opts result = ([], Some (Panic es))"
  by (simp add: createPages_def)

theorem createPages_query_errors_witness:
  "qr_errors failed_query = Some [js ''Cannot query field'']
   \<and> createPages example_options failed_query = ([], Some (Panic [js ''Cannot query field'']))"
proof -
  have e: "qr_errors failed_query = Some [js ''Cannot query field'']"
    by (simp add: failed_query_def)
  from createPages_query_errors [OF e, of example_options] e show ?thesis by simp
qed

lemma tag_pages_component:
  "pg \<in> set (fst (tag_pages opts gt cnt tags)) \<Longrightarrow> pg_component pg = PostsTemplate"
  by (induction tags arbitrary: pg)
    (auto simp: tag_page_def split: sum.splits prod.splits)

lemma tag_pages_is_tag_search:
  "pg \<in> set (fst (tag_pages opts gt cnt tags))
   \<Longrightarrow> ctx_this_is_a_tag_search (pg_context pg) = Some True"
  by (induction tags arbitrary: pg)
    (auto simp: tag_page_def split: sum.splits prod.splits)

lemma createPages_shape:
  assumes "qr_errors result = None" and "qr_data result = Some posts"
  shows "\<exists>rest. fst (createPages opts result)
                 = map (\<lambda>(index, p). post_page opts posts index p) (enumerate 0 posts) @ rest
           \<and> (\<forall>pg\<in>set rest. pg_component pg = PostsTemplate)"
proof (cases "array_from_length
                (math_ceil_div
                   (Num (length (exclude_types (do_not_count_type_for_pagination opts) posts)))
                   (postsPerPage opts))")
  case (Inl e)
  with assms show ?thesis by (simp add: createPages_def)
next
  case (Inr n)
  obtain gt cnt where c: "collect_tags (exclude_types (do_not_include_type_in_lists opts) posts)
                          = (gt, cnt)"
    by (cases "collect_tags (exclude_types (do_not_include_type_in_lists opts) posts)")
  obtain pages e where t: "tag_pages opts (uniq gt) cnt (uniq gt) = (pages, e)"
    by (cases "tag_pages opts (uniq gt) cnt (uniq gt)")
  have "\<forall>pg\<in>set pages. pg_component pg = PostsTemplate"
    using tag_pages_component [of _ opts "uniq gt" cnt "uniq gt"] t by simp
  moreover have "\<forall>pg\<in>set (map (listing_page opts posts n) [0..<n]).
                  pg_component pg = PostsTemplate"
    by (simp add: listing_page_def)
  ultimately have "\<forall>pg\<in>set (map (listing_page opts posts n) [0..<n] @ pages).
                     pg_component pg = PostsTemplate"
    by auto
  moreover have "fst (createPages opts result)
                 = map (\<lambda>(index, p). post_page opts posts index p) (enumerate 0 posts)
                   @ (map (listing_page opts posts n) [0..<n] @ pages)"
    using assms Inr c t by (simp add: createPages_def Let_def)
  ultimately show ?thesis by blast
qed

text \<open>
  C9. The per-post pages are created one for each post, in the order of the list. The
  page of the post at index \<open>i\<close> carries \<open>previousId\<close>, the id of the post at index
  \<open>i + 1\<close> (undefined for the last post), and \<open>nextId\<close>, the id of the post at index
  \<open>i - 1\<close> (undefined for the first post).
\<close>

theorem createPages_post_pages:
  assumes "qr_errors result = None" and "qr_data result = Some posts"
  shows "length (post_pages (fst (createPages opts result))) = length posts
         \<and> (\<forall>i<length posts.
               pg_path (post_pages (fst (createPages opts result)) ! i) = post_slug (posts ! i)
               \<and> ctx_id (pg_context (post_pages (fst (createPages opts result)) ! i))
                   = Some (post_id (posts ! i))
               \<and> ctx_previousId (pg_context (post_pages (fst (createPages opts result)) ! i))
                   = (if i + 1 < length posts then Some (post_id (posts ! (i + 1))) else None)
               \<and> ctx_nextId (pg_context (post_pages (fst (createPages opts result)) ! i))
                   = (if 0 < i then Some (post_id (posts ! (i - 1))) else None))"
proof -
  from createPages_shape [OF assms, of opts] obtain rest where
    f: "fst (createPages opts result)
        = map (\<lambda>(index, p). post_page opts posts index p) (enumerate 0 posts) @ rest"
    and r: "\<forall>pg\<in>set rest. pg_component pg = PostsTemplate"
    by blast
  have "filter (\<lambda>pg. pg_component pg = PostTemplate) rest = []"
    using r by (auto simp: filter_empty_conv)
  moreover have "filter (\<lambda>pg. pg_component pg = PostTemplate)
                   (map (\<lambda>(index, p). post_page opts posts index p) (enumerate 0 posts))
                 = map (\<lambda>(index, p). post_page opts posts index p) (enumerate 0 posts)"
    by (rule filter_True) (auto simp: post_page_def Let_def)
  ultimately have pp: "post_pages (fst (createPages opts result))
                       = map (\<lambda>(index, p). post_page opts posts index p) (enumerate 0 posts)"
    by (simp add: post_pages_def f)
  have at: "post_pages (fst (createPages opts result)) ! i = post_page opts posts i (posts ! i)"
    if "i < length posts" for i
    using that by (simp add: pp nth_enumerate_eq)
  show ?thesis
  proof (intro conjI allI impI)
    show "length (post_pages (fst (createPages opts result))) = length posts"
      by (simp add: pp)
  next
    fix i assume "i < length posts"
    then show "pg_path (post_pages (fst (createPages opts result)) ! i) = post_slug (posts ! i)"
      by (simp add: at post_page_def Let_def)
  next
    fix i assume "i < length posts"
    then show "ctx_id (pg_context (post_pages (fst (createPages opts result)) ! i))
               = Some (post_id (posts ! i))"
      by (simp add: at post_page_def Let_def)
  next
    fix i assume i: "i < length posts"
    then have "(int i = int (length posts) - 1) = (\<not> i + 1 < length posts)" by auto
    with i show "ctx_previousId (pg_context (post_pages (fst (createPages opts result)) ! i))
               = (if i + 1 < length posts then Some (post_id (posts ! (i + 1))) else None)"
      by (simp add: at post_page_def Let_def nth_opt_def)
  next
    fix i assume i: "i < length posts"
    then have "i - 1 < length posts" by arith
    with i show "ctx_nextId (pg_context (post_pages (fst (createPages opts result)) ! i))
               = (if 0 < i then Some (post_id (posts ! (i - 1))) else None)"
      by (simp add: at post_page_def Let_def nth_opt_def)
  qed
qed

text \<open>Three posts: the middle one has both neighbours, the first no next, the last no previous.\<close>

theorem createPages_post_pages_witness:
  "qr_errors three_posts = None \<and> qr_data three_posts = Some [post_a, post_b, post_c]
   \<and> length (post_pages (fst (createPages example_options three_posts))) = 3
   \<and> ctx_previousId (pg_context (post_pages (fst (createPages example_options three_posts)) ! 0))
       = Some (js ''b'')
   \<and> ctx_nextId (pg_context (post_pages (fst (createPages example_options three_posts)) ! 0))
       = None
   \<and> ctx_previousId (pg_context (post_pages (fst (createPages example_options three_posts)) ! 1))
       = Some (js ''c'')
   \<and> ctx_nextId (pg_context (post_pages (fst (createPages example_options three_posts)) ! 1))
       = Some (js ''a'')
   \<and> ctx_previousId (pg_context (post_pages (fst (createPages example_options three_posts)) ! 2))
       = None
   \<and> ctx_nextId (pg_context (post_pages (fst (createPages example_options three_posts)) ! 2))
       = Some (js ''b'')"
proof -
  have e: "qr_errors three_posts = None" and d: "qr_data three_posts = Some [post_a, post_b, post_c]"
    by (simp_all add: three_posts_def)
  note t = createPages_post_pages [OF e d, of example_options]
  from t have l: "length (post_pages (fst (createPages example_options three_posts))) = 3"
    by simp
  from t have a: "\<forall>i<3.
      ctx_previousId (pg_context (post_pages (fst (createPages example_options three_posts)) ! i))
        = (if i + 1 < 3 then Some (post_id ([post_a, post_b, post_c] ! (i + 1))) else None)
      \<and> ctx_nextId (pg_context (post_pages (fst (createPages example_options three_posts)) ! i))
        = (if 0 < i then Some (post_id ([post_a, post_b, post_c] ! (i - 1))) else None)"
    by simp
  from a [rule_format, of 0] a [rule_format, of 1] a [rule_format, of 2] e d l
  show ?thesis
    by (simp add: post_a_def post_b_def post_c_def)
qed

subsection \<open>The loops, in closed form\<close>

lemma collect_tags_foldl:
  "foldl (\<lambda>(global_tags, counting_by_tags) p.
            (global_tags @ post_tags p, foldl count_tag counting_by_tags (post_tags p)))
     (g, c) posts
   = (g @ concat (map post_tags posts), foldl count_tag c (concat (map post_tags posts)))"
  by (induction posts arbitrary: g c) simp_all

lemma collect_tags_eq:
  "collect_tags posts
   = (concat (map post_tags posts), foldl count_tag Map.empty (concat (map post_tags posts)))"
  by (simp add: collect_tags_def collect_tags_foldl)

lemma proto_inherited: "js ''__proto__'' \<in> set inherited_names"
  by (simp add: inherited_names_def)

lemma count_tag_other: "t \<noteq> tag \<Longrightarrow> count_tag obj tag t = obj t"
  by (simp add: count_tag_def put_count_def Let_def)

lemma count_tag_same:
  assumes "tag \<notin> set inherited_names"
  shows "count_tag obj tag tag
         = Some (case obj tag of Some (Num n) \<Rightarrow> Num (n + 1) | Some NaN \<Rightarrow> Num 1 | None \<Rightarrow> Num 1)"
proof -
  from assms proto_inherited have "tag \<noteq> js ''__proto__''" by auto
  with assms show ?thesis
    by (auto simp: count_tag_def put_count_def get_count_def falsy_def to_number_def
        increment_def Let_def split: option.splits jsnum.splits)
qed

lemma foldl_count_tag:
  assumes "tag \<notin> set inherited_names"
    and "obj tag = None \<or> (\<exists>n. obj tag = Some (Num n))"
  shows "foldl count_tag obj xs tag
         = (if tag \<in> set xs
            then Some (Num ((case obj tag of Some (Num n) \<Rightarrow> n | _ \<Rightarrow> 0) + count_list xs tag))
            else obj tag)"
  using assms(2)
proof (induction xs arbitrary: obj)
  case Nil
  then show ?case by simp
next
  case (Cons x xs)
  show ?case
  proof (cases "x = tag")
    case True
    have s: "count_tag obj tag tag
             = Some (Num ((case obj tag of Some (Num n) \<Rightarrow> n | _ \<Rightarrow> 0) + 1))"
      using Cons.prems by (auto simp: count_tag_same [OF assms(1)])
    then have "count_tag obj tag tag = None \<or> (\<exists>n. count_tag obj tag tag = Some (Num n))"
      by simp
    with Cons.IH [of "count_tag obj tag"] s True show ?thesis by simp
  next
    case False
    then have "count_tag obj x tag = obj tag" by (simp add: count_tag_other)
    with Cons.prems Cons.IH [of "count_tag obj x"] False show ?thesis by simp
  qed
qed

lemma counted_tags:
  assumes "tag \<notin> set inherited_names"
  shows "to_number (get_count (foldl count_tag Map.empty xs) tag)
         = (if tag \<in> set xs then Num (count_list xs tag) else NaN)"
  using foldl_count_tag [OF assms, of Map.empty xs] assms
  by (simp add: get_count_def to_number_def)

lemma tag_page_count_eq:
  assumes "0 < postsPerPage opts" and "tag \<notin> set inherited_names"
  shows "tag_page_count opts (foldl count_tag Map.empty xs) tag
         = nat \<lceil>real (count_list xs tag) / real (postsPerPage opts)\<rceil>"
  using assms
  by (simp add: tag_page_count_def counted_tags math_ceil_div_def array_from_length_def)

lemma foldl_set_add:
  "set (foldl set_add acc xs) = set acc \<union> set xs
   \<and> (distinct acc \<longrightarrow> distinct (foldl set_add acc xs))"
  by (induction xs arbitrary: acc) (auto simp: set_add_def)

lemma set_uniq: "set (uniq xs) = set xs"
  by (simp add: uniq_def foldl_set_add)

lemma distinct_uniq: "distinct (uniq xs)"
  by (simp add: uniq_def foldl_set_add)

lemma array_from_length_pos:
  "0 < p \<Longrightarrow> array_from_length (math_ceil_div a p)
             = Inr (case a of Num n \<Rightarrow> nat \<lceil>real n / real p\<rceil> | NaN \<Rightarrow> 0)"
  by (simp add: array_from_length_def math_ceil_div_def split: jsnum.splits)

lemma tag_pages_pos:
  assumes "0 < postsPerPage opts"
  shows "tag_pages opts gt cnt tags
         = (concat (map (\<lambda>t. map (tag_page opts gt t (tag_page_count opts cnt t))
                                [0..<tag_page_count opts cnt t]) tags), None)"
  by (induction tags)
    (simp_all add: tag_page_count_def array_from_length_pos [OF assms])

lemma createPages_pos:
  assumes "0 < postsPerPage opts" and "qr_errors result = None" and "qr_data result = Some posts"
  shows "createPages opts result
         = (map (\<lambda>(index, p). post_page opts posts index p) (enumerate 0 posts)
            @ map (listing_page opts posts
                     (nat \<lceil>real (length (exclude_types (do_not_count_type_for_pagination opts)
                                            posts))
                           / real (postsPerPage opts)\<rceil>))
                [0..<nat \<lceil>real (length (exclude_types (do_not_count_type_for_pagination opts)
                                          posts))
                         / real (postsPerPage opts)\<rceil>]
            @ concat
                (map (\<lambda>t. map (tag_page opts
                                 (uniq (concat (map post_tags
                                    (exclude_types (do_not_include_type_in_lists opts) posts))))
                                 t
                                 (tag_page_count opts
                                    (foldl count_tag Map.empty (concat (map post_tags
                                       (exclude_types (do_not_include_type_in_lists opts) posts))))
                                    t))
                            [0..<tag_page_count opts
                                   (foldl count_tag Map.empty (concat (map post_tags
                                      (exclude_types (do_not_include_type_in_lists opts) posts))))
                                   t])
                   (uniq (concat (map post_tags
                      (exclude_types (do_not_include_type_in_lists opts) posts))))),
            None)"
  using assms
  by (simp add: createPages_def Let_def array_from_length_pos collect_tags_eq tag_pages_pos)

subsection \<open>Telling the kinds of pages apart\<close>

lemma main_listing_post_pages:
  "main_listing_pages (map (\<lambda>(index, p). post_page opts posts index p) xs) = []"
  by (auto simp: main_listing_pages_def filter_empty_conv post_page_def Let_def)

lemma main_listing_listing_pages:
  "main_listing_pages (map (listing_page opts posts n) is) = map (listing_page opts posts n) is"
  unfolding main_listing_pages_def by (rule filter_True) (auto simp: listing_page_def)

lemma main_listing_tag_pages:
  "main_listing_pages (concat (map (\<lambda>t. map (tag_page opts gt t (k t)) [0..<k t]) tags)) = []"
  by (auto simp: main_listing_pages_def filter_empty_conv tag_page_def)

lemma tag_listing_post_pages:
  "tag_listing_pages tag (map (\<lambda>(index, p). post_page opts posts index p) xs) = []"
  by (auto simp: tag_listing_pages_def filter_empty_conv post_page_def Let_def)

lemma tag_listing_listing_pages:
  "tag_listing_pages tag (map (listing_page opts posts n) is) = []"
  by (auto simp: tag_listing_pages_def filter_empty_conv listing_page_def)

lemma tag_listing_one_tag:
  "tag_listing_pages tag (map (tag_page opts gt t n) is)
   = (if t = tag then map (tag_page opts gt t n) is else [])"
proof (cases "t = tag")
  case True
  have "filter (\<lambda>pg. ctx_tag (pg_context pg) = Some tag) (map (tag_page opts gt tag n) is)
        = map (tag_page opts gt tag n) is"
    by (rule filter_True) (auto simp: tag_page_def)
  with True show ?thesis by (simp add: tag_listing_pages_def)
next
  case False
  then show ?thesis
    by (auto simp: tag_listing_pages_def filter_empty_conv tag_page_def)
qed

lemma tag_listing_append:
  "tag_listing_pages tag (xs @ ys) = tag_listing_pages tag xs @ tag_listing_pages tag ys"
  by (simp add: tag_listing_pages_def)

lemma main_listing_append:
  "main_listing_pages (xs @ ys) = main_listing_pages xs @ main_listing_pages ys"
  by (simp add: main_listing_pages_def)

lemma tag_listing_tag_pages:
  assumes "distinct tags"
  shows "tag_listing_pages tag (concat (map (\<lambda>t. map (tag_page opts gt t (k t)) [0..<k t]) tags))
         = (if tag \<in> set tags then map (tag_page opts gt tag (k tag)) [0..<k tag] else [])"
  using assms
proof (induction tags)
  case Nil
  then show ?case by (simp add: tag_listing_pages_def)
next
  case (Cons t tags)
  then show ?case
    by (auto simp: tag_listing_append tag_listing_one_tag)
qed

lemma createPages_main_listing:
  assumes "0 < postsPerPage opts" and "qr_errors result = None" and "qr_data result = Some posts"
  shows "main_listing_pages (fst (createPages opts result))
         = map (listing_page opts posts
                  (nat \<lceil>real (length (exclude_types (do_not_count_type_for_pagination opts) posts))
                        / real (postsPerPage opts)\<rceil>))
             [0..<nat \<lceil>real (length (exclude_types (do_not_count_type_for_pagination opts) posts))
                      / real (postsPerPage opts)\<rceil>]"
  by (simp add: createPages_pos [OF assms] main_listing_append main_listing_post_pages
      main_listing_listing_pages main_listing_tag_pages)

lemma createPages_tag_listing:
  assumes "0 < postsPerPage opts" and "qr_errors result = None" and "qr_data result = Some posts"
    and "tag \<notin> set inherited_names"
  shows "tag_listing_pages tag (fst (createPages opts result))
         = map (tag_page opts
                  (uniq (concat (map post_tags
                     (exclude_types (do_not_include_type_in_lists opts) posts))))
                  tag
                  (nat \<lceil>real (count_list (concat (map post_tags
                                 (exclude_types (do_not_include_type_in_lists opts) posts))) tag)
                        / real (postsPerPage opts)\<rceil>))
             [0..<nat \<lceil>real (count_list (concat (map post_tags
                               (exclude_types (do_not_include_type_in_lists opts) posts))) tag)
                      / real (postsPerPage opts)\<rceil>]"
proof -
  let ?all = "concat (map post_tags (exclude_types (do_not_include_type_in_lists opts) posts))"
  have k: "tag_page_count opts (foldl count_tag Map.empty ?all) tag
           = nat \<lceil>real (count_list ?all tag) / real (postsPerPage opts)\<rceil>"
    by (rule tag_page_count_eq [OF assms(1) assms(4)])
  have z: "nat \<lceil>real (count_list ?all tag) / real (postsPerPage opts)\<rceil> = 0"
    if "tag \<notin> set ?all"
    using that by (simp add: count_list_0_iff [THEN iffD2])
  have "tag_listing_pages tag (fst (createPages opts result))
        = (if tag \<in> set (uniq ?all)
           then map (tag_page opts (uniq ?all) tag
                       (tag_page_count opts (foldl count_tag Map.empty ?all) tag))
                  [0..<tag_page_count opts (foldl count_tag Map.empty ?all) tag]
           else [])"
    by (simp only: createPages_pos [OF assms(1-3)] fst_conv tag_listing_append
        tag_listing_post_pages tag_listing_listing_pages
        tag_listing_tag_pages [OF distinct_uniq] append_Nil)
  then show ?thesis
    using z by (simp add: k set_uniq)
qed

lemma tag_pages_opts_cong:
  assumes "basePath o1 = basePath o2" and "tagsPath o1 = tagsPath o2"
    and "postsPerPage o1 = postsPerPage o2"
  shows "tag_pages o1 gt cnt tags = tag_pages o2 gt cnt tags"
  using assms
  by (induction tags) (auto simp: tag_page_def split: sum.splits prod.splits)

lemma createPages_ignores_option:
  "createPages (opts\<lparr> do_not_create_tag_page_for := d \<rparr>) result = createPages opts result"
proof -
  have 1: "post_page (opts\<lparr> do_not_create_tag_page_for := d \<rparr>) = post_page opts"
    by (intro ext) (simp add: post_page_def)
  have 2: "listing_page (opts\<lparr> do_not_create_tag_page_for := d \<rparr>) = listing_page opts"
    by (intro ext) (simp add: listing_page_def)
  have 3: "tag_pages (opts\<lparr> do_not_create_tag_page_for := d \<rparr>) = tag_pages opts"
    by (intro ext) (rule tag_pages_opts_cong; simp)
  show ?thesis
    by (auto simp: createPages_def Let_def 1 2 3 split: option.splits sum.splits prod.splits)
qed

subsection \<open>The claims on the pages created\<close>

text \<open>
  C3. With a positive page size, the main listing gets exactly
  \<open>ceil(m / postsPerPage)\<close> pages, \<open>m\<close> being the number of posts whose type is not in
  \<open>do_not_count_type_for_pagination\<close> (all posts when the option is unset). The page
  with index \<open>i\<close> has the base path as its path for \<open>i = 0\<close> and the base path followed
  by \<open>i + 1\<close> otherwise, and its context has \<open>skip = i * postsPerPage\<close>,
  \<open>limit = postsPerPage\<close>, \<open>current_page = i + 1\<close> and \<open>num_of_pages\<close> the number of
  these pages.
\<close>

theorem createPages_main_listing_pages:
  assumes "0 < postsPerPage opts" and "qr_errors result = None" and "qr_data result = Some posts"
  shows "let m = length (case do_not_count_type_for_pagination opts of
                           None \<Rightarrow> posts
                         | Some ts \<Rightarrow> filter (\<lambda>p. post_type p \<notin> set ts) posts);
             n = nat \<lceil>real m / real (postsPerPage opts)\<rceil>;
             main = main_listing_pages (fst (createPages opts result))
         in length main = n
            \<and> (\<forall>i<n. pg_path (main ! i)
                        = (if i = 0 then basePath opts
                           else basePath opts @ string_of_nat (i + 1))
                      \<and> ctx_skip (pg_context (main ! i)) = Some (i * postsPerPage opts)
                      \<and> ctx_limit (pg_context (main ! i)) = Some (postsPerPage opts)
                      \<and> ctx_current_page (pg_context (main ! i)) = Some (i + 1)
                      \<and> ctx_num_of_pages (pg_context (main ! i)) = Some n)"
proof -
  have x: "(case do_not_count_type_for_pagination opts of
              None \<Rightarrow> posts
            | Some ts \<Rightarrow> filter (\<lambda>p. post_type p \<notin> set ts) posts)
           = exclude_types (do_not_count_type_for_pagination opts) posts"
    by (simp add: exclude_types_def)
  show ?thesis
    unfolding x Let_def createPages_main_listing [OF assms]
    by (simp add: listing_page_def)
qed

text \<open>Three posts, two to a page: the pages \<open>/blog\<close> and \<open>/blog2\<close>.\<close>

theorem createPages_main_listing_pages_witness:
  "0 < postsPerPage example_options
   \<and> qr_errors three_posts = None \<and> qr_data three_posts = Some [post_a, post_b, post_c]
   \<and> length (main_listing_pages (fst (createPages example_options three_posts))) = 2
   \<and> pg_path (main_listing_pages (fst (createPages example_options three_posts)) ! 0)
       = js ''/blog''
   \<and> pg_path (main_listing_pages (fst (createPages example_options three_posts)) ! 1)
       = js ''/blog2''
   \<and> ctx_skip (pg_context (main_listing_pages (fst (createPages example_options three_posts)) ! 1))
       = Some 2
   \<and> ctx_num_of_pages
         (pg_context (main_listing_pages (fst (createPages example_options three_posts)) ! 1))
       = Some 2"
proof -
  have p: "0 < postsPerPage example_options" by (simp add: example_options_def)
  have e: "qr_errors three_posts = None" and d: "qr_data three_posts = Some [post_a, post_b, post_c]"
    by (simp_all add: three_posts_def)
  have n: "nat \<lceil>real (length [post_a, post_b, post_c]) / real (postsPerPage example_options)\<rceil> = 2"
    by (simp add: example_options_def)
  have o: "do_not_count_type_for_pagination example_options = None"
    by (simp add: example_options_def)
  have s: "string_of_nat (Suc (Suc 0)) = js ''2''"
    by (simp add: string_of_nat.simps js_def)
  note t = createPages_main_listing_pages [OF p e d, unfolded Let_def o option.case n]
  from t have l: "length (main_listing_pages (fst (createPages example_options three_posts))) = 2"
    by simp
  from t have a: "\<forall>i<2.
      pg_path (main_listing_pages (fst (createPages example_options three_posts)) ! i)
        = (if i = 0 then basePath example_options
           else basePath example_options @ string_of_nat (i + 1))
      \<and> ctx_skip (pg_context (main_listing_pages (fst (createPages example_options three_posts)) ! i))
        = Some (i * postsPerPage example_options)
      \<and> ctx_num_of_pages
          (pg_context (main_listing_pages (fst (createPages example_options three_posts)) ! i))
        = Some 2"
    by simp
  from a [rule_format, of 0] a [rule_format, of 1] p e d l
  show ?thesis
    by (simp add: example_options_def s js_def)
qed

lemma count_list_distinct: "distinct xs \<Longrightarrow> count_list xs t = (if t \<in> set xs then 1 else 0)"
  by (induction xs) auto

lemma count_list_concat_distinct:
  "\<forall>p\<in>set ps. distinct (f p)
   \<Longrightarrow> count_list (concat (map f ps)) t = length (filter (\<lambda>p. t \<in> set (f p)) ps)"
  by (induction ps) (simp_all add: count_list_distinct)

text \<open>
  C6 (as amended). With a positive page size, every tag that is not the name of a member
  inherited from \<open>Object.prototype\<close> gets exactly \<open>ceil(c / postsPerPage)\<close> tag pages,
  \<open>c\<close> being the number of times the tag occurs in the tag lists of the posts kept after
  filtering by \<open>do_not_include_type_in_lists\<close>; this is the number of kept posts carrying
  the tag when no post repeats a tag. The first page has the path
  \<open>basePath + tagsPath + "/" + tag + "/"\<close>, the page with index \<open>i > 0\<close> that path
  followed by \<open>i + 1\<close>, and each context has \<open>skip = i * postsPerPage\<close> and
  \<open>limit = postsPerPage\<close>.
\<close>

theorem createPages_tag_pages:
  assumes "0 < postsPerPage opts" and "qr_errors result = None" and "qr_data result = Some posts"
    and "tag \<notin> set inherited_names"
  shows "let kept = (case do_not_include_type_in_lists opts of
                       None \<Rightarrow> posts
                     | Some ts \<Rightarrow> filter (\<lambda>p. post_type p \<notin> set ts) posts);
             c = count_list (concat (map post_tags kept)) tag;
             n = nat \<lceil>real c / real (postsPerPage opts)\<rceil>;
             pages = tag_listing_pages tag (fst (createPages opts result))
         in length pages = n
            \<and> (\<forall>i<n. pg_path (pages ! i)
                        = (if i = 0 then basePath opts @ tagsPath opts @ js ''/'' @ tag @ js ''/''
                           else basePath opts @ tagsPath opts @ js ''/'' @ tag @ js ''/''
                                @ string_of_nat (i + 1))
                      \<and> ctx_skip (pg_context (pages ! i)) = Some (i * postsPerPage opts)
                      \<and> ctx_limit (pg_context (pages ! i)) = Some (postsPerPage opts))
            \<and> ((\<forall>p\<in>set kept. distinct (post_tags p)) \<longrightarrow> c = length (posts_carrying tag kept))"
proof -
  have x: "(case do_not_include_type_in_lists opts of
              None \<Rightarrow> posts
            | Some ts \<Rightarrow> filter (\<lambda>p. post_type p \<notin> set ts) posts)
           = exclude_types (do_not_include_type_in_lists opts) posts"
    by (simp add: exclude_types_def)
  have j: "js ''/'' = [slash]" by (simp add: js_def slash_def)
  show ?thesis
    unfolding x Let_def createPages_tag_listing [OF assms] j
    by (simp add: tag_page_def posts_carrying_def count_list_concat_distinct)
qed

text \<open>
  Three posts tagged \<open>x\<close>, two to a page: the tag pages \<open>/blog/tags/x/\<close> and
  \<open>/blog/tags/x/2\<close>.
\<close>

theorem createPages_tag_pages_witness:
  "0 < postsPerPage example_options
   \<and> qr_errors three_posts = None \<and> qr_data three_posts = Some [post_a, post_b, post_c]
   \<and> js ''x'' \<notin> set inherited_names
   \<and> length (tag_listing_pages (js ''x'') (fst (createPages example_options three_posts))) = 2
   \<and> pg_path (tag_listing_pages (js ''x'') (fst (createPages example_options three_posts)) ! 0)
       = js ''/blog/tags/x/''
   \<and> pg_path (tag_listing_pages (js ''x'') (fst (createPages example_options three_posts)) ! 1)
       = js ''/blog/tags/x/2''
   \<and> ctx_skip (pg_context
        (tag_listing_pages (js ''x'') (fst (createPages example_options three_posts)) ! 1))
       = Some 2
   \<and> length (posts_carrying (js ''x'') [post_a, post_b, post_c]) = 3"
proof -
  have p: "0 < postsPerPage example_options" by (simp add: example_options_def)
  have e: "qr_errors three_posts = None" and d: "qr_data three_posts = Some [post_a, post_b, post_c]"
    by (simp_all add: three_posts_def)
  have i: "js ''x'' \<notin> set inherited_names"
    by (simp add: inherited_names_def js_def)
  have o: "do_not_include_type_in_lists example_options = None"
    by (simp add: example_options_def)
  have c: "count_list (concat (map post_tags [post_a, post_b, post_c])) (js ''x'') = 3"
    by (simp add: post_a_def post_b_def post_c_def js_def)
  have n: "nat \<lceil>real 3 / real (postsPerPage example_options)\<rceil> = 2"
    by (simp add: example_options_def)
  have k: "\<forall>p\<in>set [post_a, post_b, post_c]. distinct (post_tags p)"
    by (simp add: post_a_def post_b_def post_c_def js_def)
  have s: "string_of_nat (Suc (Suc 0)) = js ''2''"
    by (simp add: string_of_nat.simps js_def)
  note t = createPages_tag_pages [OF p e d i, unfolded Let_def o option.case c n]
  from t have l: "length (tag_listing_pages (js ''x'')
                    (fst (createPages example_options three_posts))) = 2"
    by simp
  from t k have q: "length (posts_carrying (js ''x'') [post_a, post_b, post_c]) = 3"
    by simp
  from t have a: "\<forall>i<2.
      pg_path (tag_listing_pages (js ''x'') (fst (createPages example_options three_posts)) ! i)
        = (if i = 0
           then basePath example_options @ tagsPath example_options @ js ''/'' @ js ''x'' @ js ''/''
           else basePath example_options @ tagsPath example_options @ js ''/'' @ js ''x'' @ js ''/''
                @ string_of_nat (i + 1))
      \<and> ctx_skip (pg_context
          (tag_listing_pages (js ''x'') (fst (createPages example_options three_posts)) ! i))
        = Some (i * postsPerPage example_options)"
    by simp
  from a [rule_format, of 0] a [rule_format, of 1] p e d i l q
  show ?thesis
    by (simp add: example_options_def s js_def)
qed

text \<open>
  The claim as first stated fails on a post that repeats a tag (\<open>tags: x, x\<close>): the
  counter counts occurrences, so with one post to a page the one post carrying \<open>x\<close>
  gets two tag pages.
\<close>

theorem createPages_tag_pages_counterexample:
  "map pg_path (tag_listing_pages (js ''x'') (fst (createPages one_per_page one_repeated)))
     = [js ''/blog/tags/x/'', js ''/blog/tags/x/2'']
   \<and> qr_data one_repeated = Some [repeated_tag_post]
   \<and> length (posts_carrying (js ''x'')
               (exclude_types (do_not_include_type_in_lists one_per_page) [repeated_tag_post])) = 1
   \<and> postsPerPage one_per_page = 1"
  by code_simp

text \<open>
  The option \<open>do_not_create_tag_page_for\<close> has no effect: the hook does the same
  whatever its value, because the result of filtering \<open>global_tags\<close> by it is
  discarded. With a positive page size, a tag listing page is created for every tag that
  occurs in the filtered post list and is not the name of a member inherited from
  \<open>Object.prototype\<close>, the tag named by the option included.
\<close>

theorem do_not_create_tag_page_for_ignored:
  "(\<forall>d. createPages (opts\<lparr> do_not_create_tag_page_for := d \<rparr>) result = createPages opts result)
   \<and> (0 < postsPerPage opts \<and> qr_errors result = None \<and> qr_data result = Some posts
        \<and> tag \<in> set (concat (map post_tags
                     (case do_not_include_type_in_lists opts of
                        None \<Rightarrow> posts
                      | Some ts \<Rightarrow> filter (\<lambda>p. post_type p \<notin> set ts) posts)))
        \<and> tag \<notin> set inherited_names
      \<longrightarrow> (\<exists>pg\<in>set (fst (createPages (opts\<lparr> do_not_create_tag_page_for := Some tag \<rparr>) result)).
             ctx_tag (pg_context pg) = Some tag
             \<and> pg_path pg = basePath opts @ tagsPath opts @ js ''/'' @ tag @ js ''/''))"
proof (intro conjI allI impI)
  fix d
  show "createPages (opts\<lparr> do_not_create_tag_page_for := d \<rparr>) result = createPages opts result"
    by (rule createPages_ignores_option)
next
  assume a: "0 < postsPerPage opts \<and> qr_errors result = None \<and> qr_data result = Some posts
             \<and> tag \<in> set (concat (map post_tags
                     (case do_not_include_type_in_lists opts of
                        None \<Rightarrow> posts
                      | Some ts \<Rightarrow> filter (\<lambda>p. post_type p \<notin> set ts) posts)))
             \<and> tag \<notin> set inherited_names"
  let ?all = "concat (map post_tags (exclude_types (do_not_include_type_in_lists opts) posts))"
  let ?n = "nat \<lceil>real (count_list ?all tag) / real (postsPerPage opts)\<rceil>"
  from a have p: "0 < postsPerPage opts" and e: "qr_errors result = None"
    and d: "qr_data result = Some posts" and i: "tag \<notin> set inherited_names"
    and m: "tag \<in> set ?all"
    by (simp_all add: exclude_types_def)
  have same: "createPages (opts\<lparr> do_not_create_tag_page_for := Some tag \<rparr>) result
              = createPages opts result"
    by (rule createPages_ignores_option)
  from m have "0 < count_list ?all tag"
    using count_list_0_iff [of ?all tag] by simp
  with p have "0 < real (count_list ?all tag) / real (postsPerPage opts)" by simp
  then have n: "0 < ?n" by simp
  let ?pg = "tag_page opts (uniq ?all) tag ?n 0"
  from n have "?pg \<in> set (map (tag_page opts (uniq ?all) tag ?n) [0..<?n])" by simp
  then have "?pg \<in> set (tag_listing_pages tag (fst (createPages opts result)))"
    by (simp only: createPages_tag_listing [OF p e d i])
  then have "?pg \<in> set (fst (createPages opts result))"
    by (simp add: tag_listing_pages_def)
  moreover have "ctx_tag (pg_context ?pg) = Some tag
                 \<and> pg_path ?pg = basePath opts @ tagsPath opts @ js ''/'' @ tag @ js ''/''"
    by (simp add: tag_page_def js_def slash_def)
  ultimately show "\<exists>pg\<in>set (fst (createPages (opts\<lparr> do_not_create_tag_page_for := Some tag \<rparr>)
                                     result)).
                     ctx_tag (pg_context pg) = Some tag
                     \<and> pg_path pg = basePath opts @ tagsPath opts @ js ''/'' @ tag @ js ''/''"
    unfolding same by blast
qed

text \<open>
  Three posts tagged \<open>x\<close>, and the option naming \<open>x\<close>: the pages are those created
  without the option, the page \<open>/blog/tags/x/\<close> among them.
\<close>

theorem do_not_create_tag_page_for_ignored_witness:
  "createPages (example_options\<lparr> do_not_create_tag_page_for := Some (js ''x'') \<rparr>) three_posts
     = createPages example_options three_posts
   \<and> 0 < postsPerPage example_options
   \<and> qr_errors three_posts = None \<and> qr_data three_posts = Some [post_a, post_b, post_c]
   \<and> js ''x'' \<in> set (concat (map post_tags [post_a, post_b, post_c]))
   \<and> js ''x'' \<notin> set inherited_names
   \<and> (\<exists>pg\<in>set (fst (createPages
                        (example_options\<lparr> do_not_create_tag_page_for := Some (js ''x'') \<rparr>)
                        three_posts)).
          ctx_tag (pg_context pg) = Some (js ''x'') \<and> pg_path pg = js ''/blog/tags/x/'')"
proof -
  have p: "0 < postsPerPage example_options" by (simp add: example_options_def)
  have e: "qr_errors three_posts = None" and d: "qr_data three_posts = Some [post_a, post_b, post_c]"
    by (simp_all add: three_posts_def)
  have i: "js ''x'' \<notin> set inherited_names"
    by (simp add: inherited_names_def js_def)
  have o: "do_not_include_type_in_lists example_options = None"
    by (simp add: example_options_def)
  have m: "js ''x'' \<in> set (concat (map post_tags [post_a, post_b, post_c]))"
    by (simp add: post_a_def)
  have b: "basePath example_options @ tagsPath example_options @ js ''/'' @ js ''x'' @ js ''/''
           = js ''/blog/tags/x/''"
    by (simp add: example_options_def js_def)
  note t = do_not_create_tag_page_for_ignored
    [of example_options three_posts "[post_a, post_b, post_c]" "js ''x''",
      unfolded o option.case b]
  from t have "createPages (example_options\<lparr> do_not_create_tag_page_for := Some (js ''x'') \<rparr>)
                 three_posts
               = createPages example_options three_posts"
    by blast
  moreover from t p e d m i have
    "\<exists>pg\<in>set (fst (createPages
                      (example_options\<lparr> do_not_create_tag_page_for := Some (js ''x'') \<rparr>)
                      three_posts)).
        ctx_tag (pg_context pg) = Some (js ''x'') \<and> pg_path pg = js ''/blog/tags/x/''"
    by blast
  ultimately show ?thesis using p e d m i by blast
qed

text \<open>
  C8. The option is ignored, and the loop over \<open>global_tags\<close> is written to make
  pages for every tag of the filtered posts. It misses the tags that name a member
  inherited from \<open>Object.prototype\<close>. For one post tagged \<open>constructor\<close>, one post
  to a page: \<open>counting_by_tags\<close> is a plain object, so under \<open>constructor\<close> the
  test finds the inherited function and sets no \<open>0\<close>, the increment stores NaN, the
  number of pages is NaN and \<open>Array.from\<close> makes no element. The run ends without an
  error, having created the page of the post and one page of the main listing and no tag
  page, with the option set or unset. The same post tagged \<open>x\<close> gets its tag page.
\<close>

theorem createPages_constructor_tag_no_page:
  "qr_data one_constructor = Some [constructor_post]
   \<and> post_tags constructor_post = [js ''constructor'']
   \<and> js ''constructor''
       \<in> set (concat (map post_tags
                (exclude_types (do_not_include_type_in_lists one_per_page) [constructor_post])))
   \<and> map pg_path (fst (createPages one_per_page one_constructor)) = [js ''/blog/a'', js ''/blog'']
   \<and> tag_listing_pages (js ''constructor'') (fst (createPages one_per_page one_constructor)) = []
   \<and> snd (createPages one_per_page one_constructor) = None
   \<and> createPages (one_per_page\<lparr> do_not_create_tag_page_for := Some (js ''other'') \<rparr>)
         one_constructor
       = createPages one_per_page one_constructor
   \<and> map pg_path (fst (createPages one_per_page one_plain))
       = [js ''/blog/a'', js ''/blog'', js ''/blog/tags/x/'']"
  by code_simp

end
